theory Spec2Isabelle
  imports Main "HOL-Library.Word" "HOL-Library.Multiset"
begin

section \<open>IPA subdomains module (src/providers/ipa/ipa_subdomains.c)\<close>

subsection \<open>Error codes, raw directory results, allocation\<close>

text \<open>
  The \<open>errno_t\<close> values the module returns or tests. \<open>EAGAIN\<close> is what
  \<open>ipa_subdomains_handler_get\<close> returns after it has sent a search request.
\<close>

datatype errno = EOK | ENOENT | EIO | EAGAIN | ENOMEM | EINVAL | ERANGE

text \<open>
  A raw search result (\<open>struct sysdb_attrs\<close>). The getters
  \<open>sysdb_attrs_get_string\<close> and \<open>sysdb_attrs_get_uint32_t\<close> are declared in
  db/sysdb.h and are not part of this file, so their outcome on each attribute is taken as
  a parameter of the raw result: the attribute is found with one value, it is absent (the
  getter returns \<open>ENOENT\<close>, the code the callers test for), or it is there and cannot be
  read as one value of the wanted type (the getter returns another error, here
  \<open>ERANGE\<close>).
\<close>

datatype 'a attr = Found 'a | Absent | Unreadable

record sysdb_attrs =
  strings :: "string \<Rightarrow> string attr"
  uint32s :: "string \<Rightarrow> 32 word attr"

definition sysdb_attrs_get_string :: "sysdb_attrs \<Rightarrow> string \<Rightarrow> errno + string" where
  "sysdb_attrs_get_string attrs nm =
     (case strings attrs nm of
        Found v \<Rightarrow> Inr v
      | Absent \<Rightarrow> Inl ENOENT
      | Unreadable \<Rightarrow> Inl ERANGE)"

definition sysdb_attrs_get_uint32_t :: "sysdb_attrs \<Rightarrow> string \<Rightarrow> errno + 32 word" where
  "sysdb_attrs_get_uint32_t attrs nm =
     (case uint32s attrs nm of
        Found v \<Rightarrow> Inr v
      | Absent \<Rightarrow> Inl ENOENT
      | Unreadable \<Rightarrow> Inl ERANGE)"

definition IPA_CN :: string where "IPA_CN = ''cn''"
definition IPA_FLATNAME :: string where "IPA_FLATNAME = ''ipaNTFlatName''"
definition IPA_SID :: string where "IPA_SID = ''ipaNTSecurityIdentifier''"
definition IPA_TRUSTED_DOMAIN_SID :: string where
  "IPA_TRUSTED_DOMAIN_SID = ''ipaNTTrustedDomainSID''"
definition IPA_BASE_ID :: string where "IPA_BASE_ID = ''ipaBaseID''"
definition IPA_ID_RANGE_SIZE :: string where "IPA_ID_RANGE_SIZE = ''ipaIDRangeSize''"
definition IPA_BASE_RID :: string where "IPA_BASE_RID = ''ipaBaseRID''"
definition IPA_SECONDARY_BASE_RID :: string where
  "IPA_SECONDARY_BASE_RID = ''ipaSecondaryBaseRID''"

text \<open>
  talloc. Every allocation of the module can fail, and the module tests each one. The
  allocator is a list of the outcomes of the coming allocations (\<open>True\<close>: the
  allocation succeeds); each allocation takes the head, and an allocator whose list is
  used up lets every further allocation succeed.
\<close>

type_synonym talloc_ctx = "bool list"

fun talloc :: "talloc_ctx \<Rightarrow> bool \<times> talloc_ctx" where
  "talloc [] = (True, [])"
| "talloc (b # bs) = (b, bs)"

definition talloc_strdup :: "talloc_ctx \<Rightarrow> string \<Rightarrow> string option \<times> talloc_ctx" where
  "talloc_strdup m s = (case talloc m of (ok, m') \<Rightarrow> (if ok then Some s else None, m'))"

subsection \<open>Range parser: \<open>ipa_ranges_parse_results\<close>\<close>

text \<open>\<open>struct range_info\<close>; \<open>talloc_zero\<close> gives the record \<open>range_zero\<close>.\<close>

record range_info =
  name :: "string option"
  base_id :: "32 word"
  id_range_size :: "32 word"
  base_rid :: "32 word"
  secondary_base_rid :: "32 word"
  trusted_dom_sid :: "string option"

definition range_zero :: range_info where
  "range_zero = \<lparr>range_info.name = None, base_id = 0, id_range_size = 0, base_rid = 0,
                  secondary_base_rid = 0, trusted_dom_sid = None\<rparr>"

text \<open>
  The optional trusted-domain identifier (lines 115-127): found, it is duplicated; absent
  (\<open>ENOENT\<close>), the field stays unset; any other error ends the parse.
\<close>

definition range_get_trusted_dom_sid ::
  "talloc_ctx \<Rightarrow> sysdb_attrs \<Rightarrow> (errno + string option) \<times> talloc_ctx" where
  "range_get_trusted_dom_sid m attrs =
     (case sysdb_attrs_get_string attrs IPA_TRUSTED_DOMAIN_SID of
        Inr v \<Rightarrow>
          (case talloc_strdup m v of
             (None, m') \<Rightarrow> (Inl ENOMEM, m')
           | (Some s, m') \<Rightarrow> (Inr (Some s), m'))
      | Inl e \<Rightarrow> if e \<noteq> ENOENT then (Inl e, m) else (Inr None, m))"

text \<open>
  One optional number (lines 129-155): the getter writes the field when it finds the
  attribute; \<open>ret != EOK && ret != ENOENT\<close> ends the parse; on \<open>ENOENT\<close> the field
  keeps the value \<open>old\<close> it has.
\<close>

definition range_get_uint32 :: "sysdb_attrs \<Rightarrow> string \<Rightarrow> 32 word \<Rightarrow> errno + 32 word" where
  "range_get_uint32 attrs nm old =
     (case sysdb_attrs_get_uint32_t attrs nm of
        Inr v \<Rightarrow> Inr v
      | Inl e \<Rightarrow> if e \<noteq> ENOENT then Inl e else Inr old)"

definition range_get_numbers :: "sysdb_attrs \<Rightarrow> range_info \<Rightarrow> errno + range_info" where
  "range_get_numbers attrs r =
     (case range_get_uint32 attrs IPA_BASE_ID (base_id r) of
        Inl e \<Rightarrow> Inl e
      | Inr b \<Rightarrow>
     (case range_get_uint32 attrs IPA_ID_RANGE_SIZE (id_range_size r) of
        Inl e \<Rightarrow> Inl e
      | Inr s \<Rightarrow>
     (case range_get_uint32 attrs IPA_BASE_RID (base_rid r) of
        Inl e \<Rightarrow> Inl e
      | Inr br \<Rightarrow>
     (case range_get_uint32 attrs IPA_SECONDARY_BASE_RID (secondary_base_rid r) of
        Inl e \<Rightarrow> Inl e
      | Inr sr \<Rightarrow>
          Inr (r\<lparr>base_id := b, id_range_size := s, base_rid := br,
                 secondary_base_rid := sr\<rparr>)))))"

text \<open>The body of the loop of lines 95-156, for the raw result \<open>reply[c]\<close>.\<close>

definition ipa_ranges_parse_entry ::
  "talloc_ctx \<Rightarrow> sysdb_attrs \<Rightarrow> (errno + range_info) \<times> talloc_ctx" where
  "ipa_ranges_parse_entry m attrs =
     (case talloc m of (ok, m1) \<Rightarrow>
        if \<not> ok then (Inl ENOMEM, m1)
        else
     (case sysdb_attrs_get_string attrs IPA_CN of
        Inl e \<Rightarrow> (Inl e, m1)
      | Inr v \<Rightarrow>
     (case talloc_strdup m1 v of
        (None, m2) \<Rightarrow> (Inl ENOMEM, m2)
      | (Some nm, m2) \<Rightarrow>
     (case range_get_trusted_dom_sid m2 attrs of
        (Inl e, m3) \<Rightarrow> (Inl e, m3)
      | (Inr sid, m3) \<Rightarrow>
          (range_get_numbers attrs
             (range_zero\<lparr>range_info.name := Some nm, trusted_dom_sid := sid\<rparr>), m3)))))"

fun ipa_ranges_parse_loop ::
  "talloc_ctx \<Rightarrow> sysdb_attrs list \<Rightarrow> (errno + range_info list) \<times> talloc_ctx" where
  "ipa_ranges_parse_loop m [] = (Inr [], m)"
| "ipa_ranges_parse_loop m (a # as) =
     (case ipa_ranges_parse_entry m a of
        (Inl e, m') \<Rightarrow> (Inl e, m')
      | (Inr r, m') \<Rightarrow>
          (case ipa_ranges_parse_loop m' as of
             (Inl e, m'') \<Rightarrow> (Inl e, m'')
           | (Inr rs, m'') \<Rightarrow> (Inr (r # rs), m'')))"

text \<open>
  \<open>ipa_ranges_parse_results\<close>: the array is allocated first (line 89), then the loop
  runs over \<open>reply[0..count)\<close>. Any failure frees the whole list (label \<open>done\<close>), so a
  failed parse returns the error alone.
\<close>

definition ipa_ranges_parse_results ::
  "talloc_ctx \<Rightarrow> sysdb_attrs list \<Rightarrow> (errno + range_info list) \<times> talloc_ctx" where
  "ipa_ranges_parse_results m reply =
     (case talloc m of (ok, m') \<Rightarrow>
        if \<not> ok then (Inl ENOMEM, m') else ipa_ranges_parse_loop m' reply)"

text \<open>
  What the parse is compared with. \<open>range_unparsable\<close>: the name lookup fails, or the
  lookup of an optional field fails with an error other than \<open>ENOENT\<close>.
  \<open>range_of\<close>: the record of a raw result, an absent number being zero and an absent
  identifier unset. \<open>range_allocs\<close>: the allocations the parse of the results makes
  when no lookup stops it.
\<close>

definition opt_lookup_fails :: "errno + 'a \<Rightarrow> bool" where
  "opt_lookup_fails x = (case x of Inr _ \<Rightarrow> False | Inl e \<Rightarrow> e \<noteq> ENOENT)"

definition lookup_fails :: "errno + 'a \<Rightarrow> bool" where
  "lookup_fails x = (case x of Inr _ \<Rightarrow> False | Inl _ \<Rightarrow> True)"

definition range_unparsable :: "sysdb_attrs \<Rightarrow> bool" where
  "range_unparsable a =
     (lookup_fails (sysdb_attrs_get_string a IPA_CN)
      \<or> opt_lookup_fails (sysdb_attrs_get_string a IPA_TRUSTED_DOMAIN_SID)
      \<or> opt_lookup_fails (sysdb_attrs_get_uint32_t a IPA_BASE_ID)
      \<or> opt_lookup_fails (sysdb_attrs_get_uint32_t a IPA_ID_RANGE_SIZE)
      \<or> opt_lookup_fails (sysdb_attrs_get_uint32_t a IPA_BASE_RID)
      \<or> opt_lookup_fails (sysdb_attrs_get_uint32_t a IPA_SECONDARY_BASE_RID))"

definition opt_string :: "errno + string \<Rightarrow> string option" where
  "opt_string x = (case x of Inr v \<Rightarrow> Some v | Inl _ \<Rightarrow> None)"

definition opt_number :: "errno + 32 word \<Rightarrow> 32 word" where
  "opt_number x = (case x of Inr v \<Rightarrow> v | Inl _ \<Rightarrow> 0)"

definition range_of :: "sysdb_attrs \<Rightarrow> range_info" where
  "range_of a =
     \<lparr>range_info.name = opt_string (sysdb_attrs_get_string a IPA_CN),
      base_id = opt_number (sysdb_attrs_get_uint32_t a IPA_BASE_ID),
      id_range_size = opt_number (sysdb_attrs_get_uint32_t a IPA_ID_RANGE_SIZE),
      base_rid = opt_number (sysdb_attrs_get_uint32_t a IPA_BASE_RID),
      secondary_base_rid = opt_number (sysdb_attrs_get_uint32_t a IPA_SECONDARY_BASE_RID),
      trusted_dom_sid = opt_string (sysdb_attrs_get_string a IPA_TRUSTED_DOMAIN_SID)\<rparr>"

definition range_entry_allocs :: "sysdb_attrs \<Rightarrow> nat" where
  "range_entry_allocs a =
     (case sysdb_attrs_get_string a IPA_TRUSTED_DOMAIN_SID of Inr _ \<Rightarrow> 3 | Inl _ \<Rightarrow> 2)"

definition range_allocs :: "sysdb_attrs list \<Rightarrow> nat" where
  "range_allocs reply = 1 + sum_list (map range_entry_allocs reply)"

definition alloc_fails_within :: "nat \<Rightarrow> talloc_ctx \<Rightarrow> bool" where
  "alloc_fails_within n m = (False \<in> set (take n m))"


subsection \<open>Subdomain records: \<open>name_to_realm\<close>, \<open>ipa_subdom_parse\<close>\<close>

text \<open>
  \<open>struct sysdb_subdom\<close>: four string pointers, \<open>None\<close> for \<open>NULL\<close>. The field
  \<open>id\<close> is written \<open>id'\<close> here.
\<close>

record sysdb_subdom =
  realm :: "string option"
  name :: "string option"
  flat_name :: "string option"
  id' :: "string option"

definition subdom_zero :: sysdb_subdom where
  "subdom_zero = \<lparr>realm = None, sysdb_subdom.name = None, flat_name = None, id' = None\<rparr>"

text \<open>\<open>toupper\<close> in the C locale, on the byte of a character.\<close>

definition toupper :: "char \<Rightarrow> char" where
  "toupper c =
     (let n = (of_char c :: nat) in if 97 \<le> n \<and> n \<le> 122 then char_of (n - 32) else c)"

definition name_to_realm :: "talloc_ctx \<Rightarrow> string \<Rightarrow> string option \<times> talloc_ctx" where
  "name_to_realm m nm =
     (case talloc_strdup m nm of
        (None, m') \<Rightarrow> (None, m')
      | (Some r, m') \<Rightarrow> (Some (map toupper r), m'))"

text \<open>
  \<open>ipa_subdom_parse\<close> works on the record in place and returns at the first error.
  Each of its four blocks is one function here; a block gives the error, or the record as
  the block leaves it. After an error the caller throws the whole list away, so the
  half-written record is not returned.

  Lines 198-206: the name is set when the record has none, and must be the fetched name
  otherwise.
\<close>

definition subdom_parse_name ::
  "talloc_ctx \<Rightarrow> string \<Rightarrow> sysdb_subdom \<Rightarrow> (errno + sysdb_subdom) \<times> talloc_ctx" where
  "subdom_parse_name m v sd =
     (if sysdb_subdom.name sd = None then
        (case talloc_strdup m v of
           (None, m') \<Rightarrow> (Inl ENOMEM, m')
         | (Some s, m') \<Rightarrow> (Inr (sd\<lparr>sysdb_subdom.name := Some s\<rparr>), m'))
      else if sysdb_subdom.name sd \<noteq> Some v then (Inl EINVAL, m)
      else (Inr sd, m))"

text \<open>
  Lines 208-215: the realm, when the record has none, is the name in upper case.
  (\<open>talloc_strdup\<close> of a \<open>NULL\<close> name returns \<open>NULL\<close>.)
\<close>

definition subdom_parse_realm ::
  "talloc_ctx \<Rightarrow> sysdb_subdom \<Rightarrow> (errno + sysdb_subdom) \<times> talloc_ctx" where
  "subdom_parse_realm m sd =
     (if realm sd = None then
        (case sysdb_subdom.name sd of
           None \<Rightarrow> (Inl ENOMEM, m)
         | Some nm \<Rightarrow>
             (case name_to_realm m nm of
                (None, m') \<Rightarrow> (Inl ENOMEM, m')
              | (Some r, m') \<Rightarrow> (Inr (sd\<lparr>realm := Some r\<rparr>), m')))
      else (Inr sd, m))"

text \<open>
  Lines 217-238: a flat name that differs from the fetched one is freed and set to
  \<open>NULL\<close>; a \<open>NULL\<close> flat name is then set to a copy of the fetched one.
\<close>

definition subdom_parse_flat_name ::
  "talloc_ctx \<Rightarrow> sysdb_attrs \<Rightarrow> sysdb_subdom \<Rightarrow> (errno + sysdb_subdom) \<times> talloc_ctx" where
  "subdom_parse_flat_name m attrs sd =
     (case sysdb_attrs_get_string attrs IPA_FLATNAME of
        Inl e \<Rightarrow> (Inl e, m)
      | Inr v \<Rightarrow>
          (let sd1 = (if flat_name sd \<noteq> None \<and> flat_name sd \<noteq> Some v
                      then sd\<lparr>flat_name := None\<rparr> else sd)
           in if flat_name sd1 = None then
                (case talloc_strdup m v of
                   (None, m') \<Rightarrow> (Inl ENOMEM, m')
                 | (Some s, m') \<Rightarrow> (Inr (sd1\<lparr>flat_name := Some s\<rparr>), m'))
              else (Inr sd1, m)))"

text \<open>
  Lines 240-261: an identifier that differs from the fetched one is freed, and line 253
  then sets \<open>subdom->flat_name\<close> (not \<open>subdom->id\<close>) to \<open>NULL\<close>. The pointer
  \<open>subdom->id\<close> keeps its value, which now points to freed memory, so the test
  \<open>subdom->id == NULL\<close> of line 256 fails and no copy of the fetched identifier is made.
  A freed string is kept here with the characters it had.
\<close>

definition subdom_parse_id ::
  "talloc_ctx \<Rightarrow> sysdb_attrs \<Rightarrow> sysdb_subdom \<Rightarrow> (errno + sysdb_subdom) \<times> talloc_ctx" where
  "subdom_parse_id m attrs sd =
     (case sysdb_attrs_get_string attrs IPA_TRUSTED_DOMAIN_SID of
        Inl e \<Rightarrow> (Inl e, m)
      | Inr v \<Rightarrow>
          (let sd1 = (if id' sd \<noteq> None \<and> id' sd \<noteq> Some v
                      then sd\<lparr>flat_name := None\<rparr> else sd)
           in if id' sd1 = None then
                (case talloc_strdup m v of
                   (None, m') \<Rightarrow> (Inl ENOMEM, m')
                 | (Some s, m') \<Rightarrow> (Inr (sd1\<lparr>id' := Some s\<rparr>), m'))
              else (Inr sd1, m)))"

definition ipa_subdom_parse ::
  "talloc_ctx \<Rightarrow> sysdb_attrs \<Rightarrow> sysdb_subdom \<Rightarrow> (errno + sysdb_subdom) \<times> talloc_ctx" where
  "ipa_subdom_parse m attrs subdom =
     (case sysdb_attrs_get_string attrs IPA_CN of
        Inl e \<Rightarrow> (Inl e, m)
      | Inr v \<Rightarrow>
     (case subdom_parse_name m v subdom of
        (Inl e, m1) \<Rightarrow> (Inl e, m1)
      | (Inr sd1, m1) \<Rightarrow>
     (case subdom_parse_realm m1 sd1 of
        (Inl e, m2) \<Rightarrow> (Inl e, m2)
      | (Inr sd2, m2) \<Rightarrow>
     (case subdom_parse_flat_name m2 attrs sd2 of
        (Inl e, m3) \<Rightarrow> (Inl e, m3)
      | (Inr sd3, m3) \<Rightarrow> subdom_parse_id m3 attrs sd3))))"

subsection \<open>Reconciler: \<open>ipa_subdomains_refresh\<close>\<close>

text \<open>
  \<open>struct sdap_search_base\<close> (the fields the module reads) and
  \<open>struct ipa_subdomains_ctx\<close>. A \<open>NULL\<close>-terminated array of search bases is a list;
  the cache \<open>subdoms[0..num_subdoms)\<close> is the list \<open>subdoms\<close>.
\<close>

record sdap_search_base =
  basedn :: string
  scope :: int
  filter' :: "string option"

record ipa_subdomains_ctx =
  search_bases :: "sdap_search_base list"
  master_search_bases :: "sdap_search_base list"
  ranges_search_bases :: "sdap_search_base list"
  last_refreshed :: int
  subdoms :: "sysdb_subdom list"

text \<open>
  The inner loop of lines 280-292, from index \<open>c\<close>: the index of the first result not
  yet handled whose name is the cached name \<open>nm\<close>, or \<open>count\<close> when there is none;
  a result not yet handled whose name cannot be read ends the refresh. (A cached entry
  always has a name; for a \<open>NULL\<close> one, where \<open>strcmp\<close> is undefined, no result
  matches here.)
\<close>

function refresh_find ::
  "sysdb_attrs list \<Rightarrow> bool list \<Rightarrow> string option \<Rightarrow> nat \<Rightarrow> errno + nat" where
  "refresh_find reply handled nm c =
     (if c < length reply then
        (if handled ! c then refresh_find reply handled nm (Suc c)
         else
           (case sysdb_attrs_get_string (reply ! c) IPA_CN of
              Inl e \<Rightarrow> Inl e
            | Inr v \<Rightarrow>
                if Some v = nm then Inr c else refresh_find reply handled nm (Suc c)))
      else Inr c)"
  by pat_completeness auto
termination
  by (relation "measure (\<lambda>(reply, handled, nm, c). length reply - c)") auto

text \<open>
  The outer loop of lines 279-311, from index \<open>i\<close> with \<open>h\<close> results handled. A cached
  entry with no result left is removed by moving the entries after it down one place
  (lines 296-300; \<open>i--\<close> and the loop's \<open>i++\<close> leave \<open>i\<close> where it is); an entry with a
  result is updated from it by \<open>ipa_subdom_parse\<close> and the result is marked handled.
\<close>

function refresh_cached ::
  "talloc_ctx \<Rightarrow> sysdb_attrs list \<Rightarrow> sysdb_subdom list \<Rightarrow> bool list \<Rightarrow> nat \<Rightarrow> nat \<Rightarrow>
     (errno + sysdb_subdom list \<times> bool list \<times> nat) \<times> talloc_ctx" where
  "refresh_cached m reply sds handled i h =
     (if i < length sds then
        (case refresh_find reply handled (sysdb_subdom.name (sds ! i)) 0 of
           Inl e \<Rightarrow> (Inl e, m)
         | Inr c \<Rightarrow>
             if c \<ge> length reply then
               refresh_cached m reply (take i sds @ drop (Suc i) sds) handled i h
             else
               (case ipa_subdom_parse m (reply ! c) (sds ! i) of
                  (Inl e, m') \<Rightarrow> (Inl e, m')
                | (Inr sd, m') \<Rightarrow>
                    refresh_cached m' reply (sds[i := sd]) (handled[c := True]) (Suc i) (Suc h)))
      else (Inr (sds, handled, h), m))"
  by pat_completeness auto
termination
  by (relation "measure (\<lambda>(m, reply, sds, handled, i, h). length sds - i)") auto

text \<open>
  The loop of lines 332-344, from index \<open>c\<close>: every result not handled is parsed into a
  zeroed record at the end of the list.
\<close>

function refresh_append ::
  "talloc_ctx \<Rightarrow> sysdb_attrs list \<Rightarrow> bool list \<Rightarrow> sysdb_subdom list \<Rightarrow> nat \<Rightarrow>
     (errno + sysdb_subdom list) \<times> talloc_ctx" where
  "refresh_append m reply handled sds c =
     (if c < length reply then
        (if handled ! c then refresh_append m reply handled sds (Suc c)
         else
           (case ipa_subdom_parse m (reply ! c) subdom_zero of
              (Inl e, m') \<Rightarrow> (Inl e, m')
            | (Inr sd, m') \<Rightarrow> refresh_append m' reply handled (sds @ [sd]) (Suc c)))
      else (Inr sds, m))"
  by pat_completeness auto
termination
  by (relation "measure (\<lambda>(m, reply, handled, sds, c). length reply - c)") auto

text \<open>
  Lines 276-346, up to the label \<open>done\<close>: the status, the list as the code leaves it,
  \<open>*changes\<close> and the allocator. \<open>*changes\<close> is only ever set to true, at line 320,
  which is reached when \<open>count != h\<close>.
\<close>

definition refresh_body ::
  "talloc_ctx \<Rightarrow> sysdb_subdom list \<Rightarrow> sysdb_attrs list \<Rightarrow> bool \<Rightarrow>
     errno \<times> sysdb_subdom list \<times> bool \<times> talloc_ctx" where
  "refresh_body m sds reply changes =
     (case refresh_cached m reply sds (replicate (length reply) False) 0 0 of
        (Inl e, m1) \<Rightarrow> (e, sds, changes, m1)
      | (Inr (sds1, handled, h), m1) \<Rightarrow>
          if length reply = h then (EOK, sds1, changes, m1)
          else
            (case talloc m1 of (ok, m2) \<Rightarrow>
               if \<not> ok then (ENOMEM, sds1, True, m2)
               else
                 (case refresh_append m2 reply handled sds1 0 of
                    (Inl e, m3) \<Rightarrow> (e, sds1, True, m3)
                  | (Inr sds2, m3) \<Rightarrow> (EOK, sds2, True, m3))))"

text \<open>
  \<open>ipa_subdomains_refresh\<close> with the label \<open>done\<close> (lines 348-357); \<open>now\<close> is
  \<open>time(NULL)\<close>. It returns the status, the context, \<open>*changes\<close> and the allocator.
\<close>

definition ipa_subdomains_refresh ::
  "int \<Rightarrow> talloc_ctx \<Rightarrow> ipa_subdomains_ctx \<Rightarrow> sysdb_attrs list \<Rightarrow> bool \<Rightarrow>
     errno \<times> ipa_subdomains_ctx \<times> bool \<times> talloc_ctx" where
  "ipa_subdomains_refresh now m ctx reply changes =
     (case refresh_body m (subdoms ctx) reply changes of
        (ret, sds, changes', m') \<Rightarrow>
          if ret \<noteq> EOK then (ret, ctx\<lparr>last_refreshed := 0, subdoms := []\<rparr>, changes', m')
          else (ret, ctx\<lparr>last_refreshed := now, subdoms := sds\<rparr>, changes', m'))"

text \<open>
  A raw result with the given name, flat name and trusted-domain identifier and nothing
  else, and the record a first refresh makes of it.
\<close>

definition raw_subdom :: "string \<Rightarrow> string \<Rightarrow> string \<Rightarrow> sysdb_attrs" where
  "raw_subdom n f s =
     \<lparr>strings = (\<lambda>a. if a = IPA_CN then Found n
                      else if a = IPA_FLATNAME then Found f
                      else if a = IPA_TRUSTED_DOMAIN_SID then Found s
                      else Absent),
      uint32s = (\<lambda>a. Absent)\<rparr>"

definition cached_subdom :: "string \<Rightarrow> string \<Rightarrow> string \<Rightarrow> sysdb_subdom" where
  "cached_subdom n f s =
     \<lparr>realm = Some (map toupper n), sysdb_subdom.name = Some n, flat_name = Some f,
      id' = Some s\<rparr>"

text \<open>The names of the fetched results that have one, in order.\<close>

fun fetched_names :: "sysdb_attrs list \<Rightarrow> string list" where
  "fetched_names [] = []"
| "fetched_names (r # rs) =
     (case sysdb_attrs_get_string r IPA_CN of
        Inr v \<Rightarrow> v # fetched_names rs
      | Inl _ \<Rightarrow> fetched_names rs)"


text \<open>
  The name of a raw result (\<open>None\<close> when it cannot be read), and the names of the
  results that are, and that are not, marked handled.
\<close>

definition cn_of :: "sysdb_attrs \<Rightarrow> string option" where
  "cn_of r = opt_string (sysdb_attrs_get_string r IPA_CN)"

definition handled_names :: "sysdb_attrs list \<Rightarrow> bool list \<Rightarrow> string option list" where
  "handled_names F handled = map (cn_of \<circ> fst) (filter snd (zip F handled))"

definition unhandled_names :: "sysdb_attrs list \<Rightarrow> bool list \<Rightarrow> string option list" where
  "unhandled_names F handled = map (cn_of \<circ> fst) (filter (Not \<circ> snd) (zip F handled))"

subsection \<open>The persistent cache (sysdb)\<close>

text \<open>
  The functions \<open>sysdb_update_subdomains\<close>, \<open>sysdb_update_ranges\<close>,
  \<open>sysdb_master_domain_get_info\<close> and \<open>sysdb_master_domain_add_info\<close> are declared
  in db/sysdb.h and are not part of this file. The store they work on holds the name of
  its own domain, the subdomain snapshot, the range records and the master domain record;
  each call can fail, and the status each kind of call gives is a parameter of the store
  (\<open>EOK\<close>: the call succeeds).
\<close>

record sysdb_ctx =
  domain_name :: string
  stored_subdoms :: "sysdb_subdom list"
  stored_ranges :: "range_info list"
  master_info :: sysdb_subdom
  update_subdomains_ret :: errno
  update_ranges_ret :: errno
  master_domain_get_info_ret :: errno
  master_domain_add_info_ret :: errno

text \<open>
  Modelled from the spec: \<open>sysdb_update_subdomains\<close> (db/sysdb.h) is missing. Section 6
  of the spec: \<open>write_cache_snapshot\<close> gives Ok or a StoreError; section 3: the
  collection is replaced wholesale.
\<close>

definition sysdb_update_subdomains ::
  "sysdb_ctx \<Rightarrow> sysdb_subdom list \<Rightarrow> errno \<times> sysdb_ctx" where
  "sysdb_update_subdomains s sds =
     (if update_subdomains_ret s \<noteq> EOK then (update_subdomains_ret s, s)
      else (EOK, s\<lparr>stored_subdoms := sds\<rparr>))"

text \<open>
  Modelled from the spec: \<open>sysdb_update_ranges\<close> (db/sysdb.h) is missing. Section 4.2
  of the spec: the range records are persisted as a wholesale replacement, and the write
  can fail.
\<close>

definition sysdb_update_ranges ::
  "sysdb_ctx \<Rightarrow> range_info list \<Rightarrow> errno \<times> sysdb_ctx" where
  "sysdb_update_ranges s rl =
     (if update_ranges_ret s \<noteq> EOK then (update_ranges_ret s, s)
      else (EOK, s\<lparr>stored_ranges := rl\<rparr>))"

text \<open>
  Modelled from the spec: \<open>sysdb_master_domain_get_info\<close> (db/sysdb.h) is missing.
  Section 6 of the spec: \<open>read_master_domain_info\<close> gives the persisted record.
\<close>

definition sysdb_master_domain_get_info :: "sysdb_ctx \<Rightarrow> errno + sysdb_subdom" where
  "sysdb_master_domain_get_info s =
     (if master_domain_get_info_ret s \<noteq> EOK then Inl (master_domain_get_info_ret s)
      else Inr (master_info s))"

text \<open>
  Modelled from the spec: \<open>sysdb_master_domain_add_info\<close> (db/sysdb.h) is missing.
  Section 4.2 of the spec: the record is persisted as Master Domain Info and its name is
  filled from context, here the name of the store's domain; section 6: the write gives Ok
  or a StoreError.
\<close>

definition sysdb_master_domain_add_info ::
  "sysdb_ctx \<Rightarrow> sysdb_subdom \<Rightarrow> errno \<times> sysdb_ctx" where
  "sysdb_master_domain_add_info s info =
     (if master_domain_add_info_ret s \<noteq> EOK then (master_domain_add_info_ret s, s)
      else (EOK, s\<lparr>master_info := info\<lparr>sysdb_subdom.name := Some (domain_name s)\<rparr>\<rparr>))"

subsection \<open>The discovery run: handler and completion callbacks\<close>

datatype dp_err = DP_ERR_OK | DP_ERR_OFFLINE | DP_ERR_FATAL

datatype ipa_subdomains_req_type =
  IPA_SUBDOMAINS_MASTER | IPA_SUBDOMAINS_SLAVE | IPA_SUBDOMAINS_RANGES | IPA_SUBDOMAINS_MAX

text \<open>The completion callbacks a request of the run can carry.\<close>

datatype tevent_req_fn =
  Get_conn_done | Handler_done | Handler_master_done | Handler_ranges_done

definition SUBDOMAINS_FILTER :: string where
  "SUBDOMAINS_FILTER = ''objectclass=ipaNTTrustedDomain''"
definition MASTER_DOMAIN_FILTER :: string where
  "MASTER_DOMAIN_FILTER = ''objectclass=ipaNTDomainAttrs''"
definition RANGE_FILTER :: string where
  "RANGE_FILTER = ''objectclass=ipaIDRange''"
definition OBJECTCLASS :: string where "OBJECTCLASS = ''objectClass''"

definition IPA_SUBDOMAIN_REFRESH_LIMIT :: int where
  "IPA_SUBDOMAIN_REFRESH_LIMIT = 5"

text \<open>
  The table \<open>subdomain_requests\<close> (lines 383-399): filter, callback and attributes of
  each request type. \<open>IPA_SUBDOMAINS_MAX\<close> is the counter and has no entry.
\<close>

definition subdomain_requests ::
  "ipa_subdomains_req_type \<Rightarrow> (string \<times> tevent_req_fn \<times> string list) option" where
  "subdomain_requests t =
     (case t of
        IPA_SUBDOMAINS_MASTER \<Rightarrow>
          Some (MASTER_DOMAIN_FILTER, Handler_master_done, [IPA_CN, IPA_FLATNAME, IPA_SID])
      | IPA_SUBDOMAINS_SLAVE \<Rightarrow>
          Some (SUBDOMAINS_FILTER, Handler_done,
                [IPA_CN, IPA_FLATNAME, IPA_TRUSTED_DOMAIN_SID])
      | IPA_SUBDOMAINS_RANGES \<Rightarrow>
          Some (RANGE_FILTER, Handler_ranges_done,
                [OBJECTCLASS, IPA_CN, IPA_BASE_ID, IPA_BASE_RID, IPA_SECONDARY_BASE_RID,
                 IPA_ID_RANGE_SIZE, IPA_TRUSTED_DOMAIN_SID])
      | IPA_SUBDOMAINS_MAX \<Rightarrow> None)"

text \<open>
  \<open>struct ipa_subdomains_req_ctx\<close>: the fields that are data of the run (the pointers
  \<open>be_req\<close>, \<open>sd_ctx\<close> and \<open>sdap_op\<close> lead into the state below).
  \<open>reply[0..reply_count)\<close> is the list \<open>reply\<close>.
\<close>

record ipa_subdomains_req_ctx =
  current_filter :: "string option"
  search_bases :: "sdap_search_base list"
  search_base_iter :: nat
  reply :: "sysdb_attrs list"

text \<open>A search as \<open>sdap_get_generic_send\<close> is given it: base DN, scope, filter, attributes.\<close>

type_synonym search = "string \<times> int \<times> string \<times> string list"

text \<open>
  The state a run works on: the allocator, the clock (\<open>time(NULL)\<close>), whether the
  backend's private data is a subdomains context (\<open>talloc_get_type\<close> gives \<open>NULL\<close>
  otherwise) and that context, the store of the request (\<open>be_req->sysdb\<close>, which may be
  \<open>NULL\<close>) and of the backend (\<open>be_req->be_ctx->sysdb\<close>), the callback and the run
  context of the request that is outstanding, the searches sent so far, and the calls of
  the completion callback \<open>be_req->fn\<close> so far.
\<close>

record be_state =
  mem :: talloc_ctx
  clock :: int
  pvt_bet_data :: bool
  sd_ctx :: ipa_subdomains_ctx
  be_req_sysdb :: "sysdb_ctx option"
  be_ctx_sysdb :: sysdb_ctx
  pending :: "(tevent_req_fn \<times> ipa_subdomains_req_ctx) option"
  sent :: "search list"
  replies :: "(dp_err \<times> errno) list"

definition ipa_subdomains_reply :: "be_state \<Rightarrow> dp_err \<Rightarrow> errno \<Rightarrow> be_state" where
  "ipa_subdomains_reply w dp_error ret = w\<lparr>replies := replies w @ [(dp_error, ret)]\<rparr>"

text \<open>
  The label \<open>done\<close> of \<open>ipa_subdomains_handler\<close>, \<open>ipa_subdomains_handler_ranges_done\<close>
  and \<open>ipa_subdomains_handler_master_done\<close>: \<open>dp_error\<close> is \<open>DP_ERR_FATAL\<close> unless
  \<open>ret\<close> is \<open>EOK\<close>.
\<close>

definition reply_done :: "be_state \<Rightarrow> errno \<Rightarrow> be_state" where
  "reply_done w ret =
     ipa_subdomains_reply w (if ret = EOK then DP_ERR_OK else DP_ERR_FATAL) ret"

text \<open>
  Modelled from the spec: \<open>sdap_get_id_specific_filter\<close> (providers/ldap) is
  missing. Section 4.2 of the spec: the filter is the conjunction of the stage's filter
  and the filter of the search base, and building it fails only when the allocation
  fails. (A search base without a filter of its own gives the stage's filter.)
\<close>

definition sdap_get_id_specific_filter ::
  "talloc_ctx \<Rightarrow> string \<Rightarrow> string option \<Rightarrow> string option \<times> talloc_ctx" where
  "sdap_get_id_specific_filter m base_filter extra_filter =
     (case talloc m of (ok, m') \<Rightarrow>
        (if \<not> ok then None
         else Some (case extra_filter of
                      None \<Rightarrow> base_filter
                    | Some x \<Rightarrow> ''(&('' @ base_filter @ '')'' @ x @ '')''), m'))"

text \<open>
  \<open>ipa_subdomains_handler_get\<close> (lines 503-545). The search base at the cursor is
  \<open>NULL\<close> when the cursor is at the end of the list (the callbacks move the cursor on
  only after a search on the base it points to, so it never passes the end). Sending the
  request (\<open>sdap_get_generic_send\<close>, not part of this file) is one allocation, which
  can fail.
\<close>

definition ipa_subdomains_handler_get ::
  "ipa_subdomains_req_ctx \<Rightarrow> ipa_subdomains_req_type \<Rightarrow> be_state \<Rightarrow>
     errno \<times> ipa_subdomains_req_ctx \<times> be_state" where
  "ipa_subdomains_handler_get ctx type w =
     (case subdomain_requests type of
        None \<Rightarrow> (EINVAL, ctx, w)
      | Some (flt, cb, attrs) \<Rightarrow>
          if search_base_iter ctx \<ge> length (ipa_subdomains_req_ctx.search_bases ctx)
          then (EOK, ctx, w)
          else
            (let base = ipa_subdomains_req_ctx.search_bases ctx ! search_base_iter ctx in
             case sdap_get_id_specific_filter (mem w) flt (filter' base) of
               (None, m1) \<Rightarrow> (ENOMEM, ctx\<lparr>current_filter := None\<rparr>, w\<lparr>mem := m1\<rparr>)
             | (Some f, m1) \<Rightarrow>
                 (let ctx' = ctx\<lparr>current_filter := Some f\<rparr> in
                  case talloc m1 of (ok, m2) \<Rightarrow>
                    if \<not> ok then (ENOMEM, ctx', w\<lparr>mem := m2\<rparr>)
                    else (EAGAIN, ctx',
                          w\<lparr>mem := m2,
                            sent := sent w @ [(basedn base, scope base, f, attrs)],
                            pending := Some (cb, ctx')\<rparr>))))"

text \<open>
  \<open>ipa_subdomains_handler\<close> (lines 401-461). Creating the connection operation and
  sending the connection request (\<open>sdap_id_op_create\<close>, \<open>sdap_id_op_connect_send\<close>, not
  part of this file) are one allocation each, which can fail.
\<close>

definition ipa_subdomains_handler :: "be_state \<Rightarrow> be_state" where
  "ipa_subdomains_handler w =
     (if \<not> pvt_bet_data w then reply_done w EINVAL
      else if last_refreshed (sd_ctx w) > clock w - IPA_SUBDOMAIN_REFRESH_LIMIT
      then reply_done w EOK
      else
        (case talloc (mem w) of (ok1, m1) \<Rightarrow>
           if \<not> ok1 then reply_done (w\<lparr>mem := m1\<rparr>) ENOMEM
           else
        (case talloc m1 of (ok2, m2) \<Rightarrow>
           if \<not> ok2 then reply_done (w\<lparr>mem := m2\<rparr>) ENOMEM
           else
        (case talloc m2 of (ok3, m3) \<Rightarrow>
           if \<not> ok3 then reply_done (w\<lparr>mem := m3\<rparr>) ENOMEM
           else
             w\<lparr>mem := m3,
               pending :=
                 Some (Get_conn_done,
                       \<lparr>current_filter = None,
                        ipa_subdomains_req_ctx.search_bases =
                          ipa_subdomains_ctx.search_bases (sd_ctx w),
                        search_base_iter = 0,
                        reply = []\<rparr>)\<rparr>))))"

text \<open>
  \<open>ipa_subdomains_get_conn_done\<close> (lines 463-501); \<open>ret\<close> and \<open>dp_error\<close> are what
  \<open>sdap_id_op_connect_recv\<close> gives. After \<open>ipa_subdomains_handler_get\<close> the function
  replies only when the status is neither \<open>EOK\<close> nor \<open>EAGAIN\<close>, and returns otherwise.
\<close>

definition ipa_subdomains_get_conn_done ::
  "errno \<Rightarrow> dp_err \<Rightarrow> ipa_subdomains_req_ctx \<Rightarrow> be_state \<Rightarrow> be_state" where
  "ipa_subdomains_get_conn_done ret dp_error ctx w =
     (if ret \<noteq> EOK then ipa_subdomains_reply w dp_error ret
      else
        (case ipa_subdomains_handler_get ctx IPA_SUBDOMAINS_SLAVE w of
           (r, ctx', w') \<Rightarrow>
             if r \<noteq> EOK \<and> r \<noteq> EAGAIN then ipa_subdomains_reply w' dp_error r else w'))"

text \<open>
  The store a callback works on (lines 559-563 and 641-645): that of the request when it
  has one, that of the backend otherwise.
\<close>

definition the_sysdb :: "be_state \<Rightarrow> sysdb_ctx" where
  "the_sysdb w = (case be_req_sysdb w of Some s \<Rightarrow> s | None \<Rightarrow> be_ctx_sysdb w)"

definition with_sysdb ::
  "(sysdb_ctx \<Rightarrow> errno \<times> sysdb_ctx) \<Rightarrow> be_state \<Rightarrow> errno \<times> be_state" where
  "with_sysdb f w =
     (case be_req_sysdb w of
        Some s \<Rightarrow> (case f s of (r, s') \<Rightarrow> (r, w\<lparr>be_req_sysdb := Some s'\<rparr>))
      | None \<Rightarrow> (case f (be_ctx_sysdb w) of (r, s') \<Rightarrow> (r, w\<lparr>be_ctx_sysdb := s'\<rparr>)))"

text \<open>
  \<open>ipa_subdomains_handler_done\<close> from line 592 on, reached when the cursor is past the
  last slave search base: reconcile, persist when there are changes, and go to the ranges
  stage. The cursor is reset and the list of search bases replaced (lines 609-610);
  \<open>ctx->reply\<close> and \<open>ctx->reply_count\<close> are not written. Every path to the label
  \<open>done\<close> replies \<open>DP_ERR_FATAL\<close>.
\<close>

definition handler_done_refresh :: "ipa_subdomains_req_ctx \<Rightarrow> be_state \<Rightarrow> be_state" where
  "handler_done_refresh ctx w =
     (case ipa_subdomains_refresh (clock w) (mem w) (sd_ctx w) (reply ctx) False of
        (r, sd, refresh_has_changes, m1) \<Rightarrow>
          (let w1 = w\<lparr>mem := m1, sd_ctx := sd\<rparr> in
           if r \<noteq> EOK then ipa_subdomains_reply w1 DP_ERR_FATAL r
           else
             (case (if refresh_has_changes
                    then with_sysdb (\<lambda>s. sysdb_update_subdomains s (subdoms sd)) w1
                    else (EOK, w1)) of
                (r2, w2) \<Rightarrow>
                  if r2 \<noteq> EOK then ipa_subdomains_reply w2 DP_ERR_FATAL r2
                  else
                    (case ipa_subdomains_handler_get
                            (ctx\<lparr>search_base_iter := 0,
                                 ipa_subdomains_req_ctx.search_bases :=
                                   ranges_search_bases (sd_ctx w2)\<rparr>)
                            IPA_SUBDOMAINS_RANGES w2 of
                       (r3, ctx3, w3) \<Rightarrow>
                         if r3 = EAGAIN then w3
                         else if r3 \<noteq> EOK then ipa_subdomains_reply w3 DP_ERR_FATAL r3
                         else ipa_subdomains_reply w3 DP_ERR_FATAL EINVAL))))"

text \<open>
  \<open>ipa_subdomains_handler_done\<close> (lines 547-624); \<open>ret\<close> and \<open>rs\<close> are what
  \<open>sdap_get_generic_recv\<close> gives. A non-empty result is appended to \<open>ctx->reply\<close>
  (\<open>talloc_realloc\<close>, which can fail), the cursor moves on, and the next slave search is
  sent when there is a search base left.
\<close>

definition ipa_subdomains_handler_done ::
  "errno \<Rightarrow> sysdb_attrs list \<Rightarrow> ipa_subdomains_req_ctx \<Rightarrow> be_state \<Rightarrow> be_state" where
  "ipa_subdomains_handler_done ret rs ctx w =
     (if ret \<noteq> EOK then ipa_subdomains_reply w DP_ERR_FATAL ret
      else
        (case (if rs \<noteq> [] then talloc (mem w) else (True, mem w)) of
           (ok, m1) \<Rightarrow>
             if \<not> ok then ipa_subdomains_reply (w\<lparr>mem := m1\<rparr>) DP_ERR_FATAL ENOMEM
             else
               (case ipa_subdomains_handler_get
                       (ctx\<lparr>reply := reply ctx @ rs,
                            search_base_iter := search_base_iter ctx + 1\<rparr>)
                       IPA_SUBDOMAINS_SLAVE (w\<lparr>mem := m1\<rparr>) of
                  (r, ctx2, w2) \<Rightarrow>
                    if r = EAGAIN then w2
                    else if r \<noteq> EOK then ipa_subdomains_reply w2 DP_ERR_FATAL r
                    else handler_done_refresh ctx2 w2)))"

text \<open>
  \<open>ipa_subdomains_handler_ranges_done\<close> (lines 627-696). The results of this one
  search, \<open>rs\<close>, are parsed and stored at once; the function does not move the cursor and
  sends no further ranges search.
\<close>

definition ipa_subdomains_handler_ranges_done ::
  "errno \<Rightarrow> sysdb_attrs list \<Rightarrow> ipa_subdomains_req_ctx \<Rightarrow> be_state \<Rightarrow> be_state" where
  "ipa_subdomains_handler_ranges_done ret rs ctx w =
     (if ret \<noteq> EOK then reply_done w ret
      else
        (case ipa_ranges_parse_results (mem w) rs of
           (Inl e, m1) \<Rightarrow> reply_done (w\<lparr>mem := m1\<rparr>) e
         | (Inr range_list, m1) \<Rightarrow>
             (case with_sysdb (\<lambda>s. sysdb_update_ranges s range_list) (w\<lparr>mem := m1\<rparr>) of
                (r, w1) \<Rightarrow>
                  if r \<noteq> EOK then reply_done w1 r
                  else
                    (case sysdb_master_domain_get_info (the_sysdb w1) of
                       Inl e \<Rightarrow> reply_done w1 e
                     | Inr domain_info \<Rightarrow>
                         if flat_name domain_info = None \<or> id' domain_info = None
                            \<or> sysdb_subdom.name domain_info = None
                         then
                           (case ipa_subdomains_handler_get
                                   (ctx\<lparr>search_base_iter := 0,
                                        ipa_subdomains_req_ctx.search_bases :=
                                          master_search_bases (sd_ctx w1)\<rparr>)
                                   IPA_SUBDOMAINS_MASTER w1 of
                              (r2, ctx2, w2) \<Rightarrow>
                                if r2 = EAGAIN then w2 else reply_done w2 r2)
                         else reply_done w1 EOK))))"

text \<open>
  \<open>ipa_subdomains_handler_master_done\<close> (lines 698-771). The record is written to the
  store of the backend (line 746), with the flat name and the identifier of the first
  result; its name is left \<open>NULL\<close>.
\<close>

definition ipa_subdomains_handler_master_done ::
  "errno \<Rightarrow> sysdb_attrs list \<Rightarrow> ipa_subdomains_req_ctx \<Rightarrow> be_state \<Rightarrow> be_state" where
  "ipa_subdomains_handler_master_done ret rs ctx w =
     (if ret \<noteq> EOK then reply_done w ret
      else
        (case rs of
           r0 # _ \<Rightarrow>
             (case talloc (mem w) of (ok, m1) \<Rightarrow>
                if \<not> ok then reply_done (w\<lparr>mem := m1\<rparr>) ENOMEM
                else
             (case sysdb_attrs_get_string r0 IPA_FLATNAME of
                Inl e \<Rightarrow> reply_done (w\<lparr>mem := m1\<rparr>) e
              | Inr tmp_flat \<Rightarrow>
             (case talloc_strdup m1 tmp_flat of
                (None, m2) \<Rightarrow> reply_done (w\<lparr>mem := m2\<rparr>) ENOMEM
              | (Some fl, m2) \<Rightarrow>
             (case sysdb_attrs_get_string r0 IPA_SID of
                Inl e \<Rightarrow> reply_done (w\<lparr>mem := m2\<rparr>) e
              | Inr tmp_sid \<Rightarrow>
             (case talloc_strdup m2 tmp_sid of
                (None, m3) \<Rightarrow> reply_done (w\<lparr>mem := m3\<rparr>) ENOMEM
              | (Some sid, m3) \<Rightarrow>
             (case sysdb_master_domain_add_info (be_ctx_sysdb w)
                     (subdom_zero\<lparr>flat_name := Some fl, id' := Some sid\<rparr>) of
                (r, s') \<Rightarrow> reply_done (w\<lparr>mem := m3, be_ctx_sysdb := s'\<rparr>) r))))))
         | [] \<Rightarrow>
             (case ipa_subdomains_handler_get
                     (ctx\<lparr>search_base_iter := search_base_iter ctx + 1\<rparr>)
                     IPA_SUBDOMAINS_MASTER w of
                (r, ctx2, w2) \<Rightarrow>
                  if r = EAGAIN then w2
                  else if r \<noteq> EOK then reply_done w2 r
                  else reply_done w2 EIO)))"

text \<open>
  The event loop. A completion event is what the receive function of the outstanding
  request gives: \<open>sdap_id_op_connect_recv\<close> the status and \<open>dp_error\<close>,
  \<open>sdap_get_generic_recv\<close> the status and the results. \<open>deliver\<close> calls the callback of
  the outstanding request with it; with no request outstanding, or an event of the other
  kind, nothing happens. \<open>run\<close> delivers the events in order.
\<close>

datatype event = Conn_recv errno dp_err | Search_recv errno "sysdb_attrs list"

definition deliver :: "event \<Rightarrow> be_state \<Rightarrow> be_state" where
  "deliver ev w =
     (case pending w of
        None \<Rightarrow> w
      | Some (cb, ctx) \<Rightarrow>
          (case ev of
             Conn_recv ret dp_error \<Rightarrow>
               (if cb = Get_conn_done
                then ipa_subdomains_get_conn_done ret dp_error ctx (w\<lparr>pending := None\<rparr>)
                else w)
           | Search_recv ret rs \<Rightarrow>
               (case cb of
                  Get_conn_done \<Rightarrow> w
                | Handler_done \<Rightarrow>
                    ipa_subdomains_handler_done ret rs ctx (w\<lparr>pending := None\<rparr>)
                | Handler_master_done \<Rightarrow>
                    ipa_subdomains_handler_master_done ret rs ctx (w\<lparr>pending := None\<rparr>)
                | Handler_ranges_done \<Rightarrow>
                    ipa_subdomains_handler_ranges_done ret rs ctx (w\<lparr>pending := None\<rparr>))))"

definition run :: "event list \<Rightarrow> be_state \<Rightarrow> be_state" where
  "run evs w = fold deliver evs (ipa_subdomains_handler w)"


subsection \<open>Concrete inputs\<close>

text \<open>
  A search base, a store that is empty and on which every call succeeds, and the state
  before a first run (clock 1000, an allocator that never fails, the request without a
  store of its own), for given search bases and cached subdomains.
\<close>

definition search_base :: "string \<Rightarrow> sdap_search_base" where
  "search_base dn = \<lparr>basedn = dn, scope = 2, filter' = None\<rparr>"

definition sysdb0 :: sysdb_ctx where
  "sysdb0 =
     \<lparr>domain_name = ''ipa.test'', stored_subdoms = [], stored_ranges = [],
      master_info = subdom_zero, update_subdomains_ret = EOK, update_ranges_ret = EOK,
      master_domain_get_info_ret = EOK, master_domain_add_info_ret = EOK\<rparr>"

definition subdomains_ctx0 ::
  "sdap_search_base list \<Rightarrow> sdap_search_base list \<Rightarrow> sdap_search_base list \<Rightarrow>
     sysdb_subdom list \<Rightarrow> ipa_subdomains_ctx" where
  "subdomains_ctx0 sb mb rb cache =
     \<lparr>ipa_subdomains_ctx.search_bases = sb, master_search_bases = mb,
      ranges_search_bases = rb, last_refreshed = 0, subdoms = cache\<rparr>"

definition state0 ::
  "sdap_search_base list \<Rightarrow> sdap_search_base list \<Rightarrow> sdap_search_base list \<Rightarrow>
     sysdb_subdom list \<Rightarrow> be_state" where
  "state0 sb mb rb cache =
     \<lparr>mem = [], clock = 1000, pvt_bet_data = True,
      sd_ctx = subdomains_ctx0 sb mb rb cache,
      be_req_sysdb = None, be_ctx_sysdb = sysdb0, pending = None, sent = [],
      replies = []\<rparr>"

text \<open>Raw results: a range with a name, a base id and a size; a master domain record.\<close>

definition raw_range :: "string \<Rightarrow> 32 word \<Rightarrow> 32 word \<Rightarrow> sysdb_attrs" where
  "raw_range n b s =
     \<lparr>strings = (\<lambda>a. if a = IPA_CN then Found n else Absent),
      uint32s = (\<lambda>a. if a = IPA_BASE_ID then Found b
                      else if a = IPA_ID_RANGE_SIZE then Found s
                      else Absent)\<rparr>"

definition raw_master :: "string \<Rightarrow> string \<Rightarrow> sysdb_attrs" where
  "raw_master f s =
     \<lparr>strings = (\<lambda>a. if a = IPA_FLATNAME then Found f
                      else if a = IPA_SID then Found s
                      else Absent),
      uint32s = (\<lambda>a. Absent)\<rparr>"

text \<open>A range result whose name is there and whose base id cannot be read.\<close>

definition raw_range_unreadable_base :: sysdb_attrs where
  "raw_range_unreadable_base =
     \<lparr>strings = (\<lambda>a. if a = IPA_CN then Found ''R1'' else Absent),
      uint32s = (\<lambda>a. if a = IPA_BASE_ID then Unreadable else Absent)\<rparr>"

text \<open>A result with no attribute at all.\<close>

definition raw_empty :: sysdb_attrs where
  "raw_empty = \<lparr>strings = (\<lambda>a. Absent), uint32s = (\<lambda>a. Absent)\<rparr>"

text \<open>
  A state in which the master search of a first run is outstanding, and a state and run
  context in which the search on the one slave search base is outstanding, the cache
  holding \<open>a\<close> since time 990.
\<close>

definition master_wait :: be_state where
  "master_wait =
     (state0 [search_base ''s''] [search_base ''m''] [search_base ''r''] [])
       \<lparr>pending := Some (Handler_master_done,
           \<lparr>current_filter = Some MASTER_DOMAIN_FILTER,
            ipa_subdomains_req_ctx.search_bases = [search_base ''m''],
            search_base_iter = 0, reply = []\<rparr>)\<rparr>"

definition slave_wait_ctx :: ipa_subdomains_req_ctx where
  "slave_wait_ctx =
     \<lparr>current_filter = Some SUBDOMAINS_FILTER,
      ipa_subdomains_req_ctx.search_bases = [search_base ''s''],
      search_base_iter = 0, reply = []\<rparr>"

definition slave_wait :: be_state where
  "slave_wait =
     (state0 [search_base ''s''] [search_base ''m''] [search_base ''r'']
        [cached_subdom ''a'' ''A'' ''S-1''])
       \<lparr>sd_ctx := (subdomains_ctx0 [search_base ''s''] [search_base ''m'']
                    [search_base ''r''] [cached_subdom ''a'' ''A'' ''S-1''])
                  \<lparr>last_refreshed := 990\<rparr>\<rparr>"

section \<open>Properties\<close>

subsection \<open>Allocation\<close>

lemma talloc_eq: "talloc m = (\<not> alloc_fails_within 1 m, drop 1 m)"
  by (cases m) (auto simp: alloc_fails_within_def)

lemma alloc_fails_within_Suc:
  "alloc_fails_within (Suc (Suc n)) m =
     (alloc_fails_within (Suc 0) m \<or> alloc_fails_within (Suc n) (drop (Suc 0) m))"
  by (cases m) (auto simp: alloc_fails_within_def)

lemma alloc_fails_within_add:
  "alloc_fails_within (i + j) m =
     (alloc_fails_within i m \<or> alloc_fails_within j (drop i m))"
  by (auto simp: alloc_fails_within_def take_add)

lemma alloc_fails_within_0 [simp]: "\<not> alloc_fails_within 0 m"
  by (simp add: alloc_fails_within_def)

lemma alloc_fails_within_Nil [simp]: "\<not> alloc_fails_within n []"
  by (simp add: alloc_fails_within_def)

lemma talloc_strdup_eq:
  "talloc_strdup m s = (if alloc_fails_within 1 m then None else Some s, drop 1 m)"
  by (simp add: talloc_strdup_def talloc_eq)

subsection \<open>Range parser\<close>

lemma range_get_uint32_eq:
  "range_get_uint32 a nm 0 =
     (if opt_lookup_fails (sysdb_attrs_get_uint32_t a nm)
      then Inl (case sysdb_attrs_get_uint32_t a nm of Inl e \<Rightarrow> e | Inr _ \<Rightarrow> EOK)
      else Inr (opt_number (sysdb_attrs_get_uint32_t a nm)))"
  by (simp add: range_get_uint32_def opt_lookup_fails_def opt_number_def split: sum.splits)

lemma range_get_numbers_eq:
  "base_id r = 0 \<Longrightarrow> id_range_size r = 0 \<Longrightarrow> base_rid r = 0 \<Longrightarrow>
   secondary_base_rid r = 0 \<Longrightarrow>
   range_get_numbers a r =
     (if opt_lookup_fails (sysdb_attrs_get_uint32_t a IPA_BASE_ID) then
        Inl (case sysdb_attrs_get_uint32_t a IPA_BASE_ID of Inl e \<Rightarrow> e | Inr _ \<Rightarrow> EOK)
      else if opt_lookup_fails (sysdb_attrs_get_uint32_t a IPA_ID_RANGE_SIZE) then
        Inl (case sysdb_attrs_get_uint32_t a IPA_ID_RANGE_SIZE of
               Inl e \<Rightarrow> e | Inr _ \<Rightarrow> EOK)
      else if opt_lookup_fails (sysdb_attrs_get_uint32_t a IPA_BASE_RID) then
        Inl (case sysdb_attrs_get_uint32_t a IPA_BASE_RID of Inl e \<Rightarrow> e | Inr _ \<Rightarrow> EOK)
      else if opt_lookup_fails (sysdb_attrs_get_uint32_t a IPA_SECONDARY_BASE_RID) then
        Inl (case sysdb_attrs_get_uint32_t a IPA_SECONDARY_BASE_RID of
               Inl e \<Rightarrow> e | Inr _ \<Rightarrow> EOK)
      else Inr (r\<lparr>base_id := opt_number (sysdb_attrs_get_uint32_t a IPA_BASE_ID),
                 id_range_size := opt_number (sysdb_attrs_get_uint32_t a IPA_ID_RANGE_SIZE),
                 base_rid := opt_number (sysdb_attrs_get_uint32_t a IPA_BASE_RID),
                 secondary_base_rid :=
                   opt_number (sysdb_attrs_get_uint32_t a IPA_SECONDARY_BASE_RID)\<rparr>))"
  by (simp add: range_get_numbers_def range_get_uint32_eq)

lemma range_get_numbers_bad:
  assumes "base_id r = 0" "id_range_size r = 0" "base_rid r = 0" "secondary_base_rid r = 0"
    and "opt_lookup_fails (sysdb_attrs_get_uint32_t a IPA_BASE_ID)
      \<or> opt_lookup_fails (sysdb_attrs_get_uint32_t a IPA_ID_RANGE_SIZE)
      \<or> opt_lookup_fails (sysdb_attrs_get_uint32_t a IPA_BASE_RID)
      \<or> opt_lookup_fails (sysdb_attrs_get_uint32_t a IPA_SECONDARY_BASE_RID)"
  shows "\<exists>e. range_get_numbers a r = Inl e"
  using assms(5) by (auto simp add: range_get_numbers_eq [OF assms(1-4)])

lemma range_get_trusted_dom_sid_eq:
  "range_get_trusted_dom_sid m a =
     (case sysdb_attrs_get_string a IPA_TRUSTED_DOMAIN_SID of
        Inr v \<Rightarrow> (if alloc_fails_within 1 m then Inl ENOMEM else Inr (Some v), drop 1 m)
      | Inl e \<Rightarrow> (if e \<noteq> ENOENT then Inl e else Inr None, m))"
  by (simp add: range_get_trusted_dom_sid_def talloc_strdup_eq split: sum.splits)

lemma parse_entry_bad:
  assumes "range_unparsable a"
  shows "\<exists>e. fst (ipa_ranges_parse_entry m a) = Inl e"
proof (cases "sysdb_attrs_get_string a IPA_CN")
  case (Inl e)
  then show ?thesis
    by (simp add: ipa_ranges_parse_entry_def talloc_eq)
next
  case cn: (Inr v)
  show ?thesis
  proof (cases "opt_lookup_fails (sysdb_attrs_get_string a IPA_TRUSTED_DOMAIN_SID)")
    case True
    then show ?thesis using cn
      by (auto simp add: ipa_ranges_parse_entry_def talloc_eq talloc_strdup_eq
          range_get_trusted_dom_sid_eq opt_lookup_fails_def split: sum.splits)
  next
    case False
    with assms cn have nums: "opt_lookup_fails (sysdb_attrs_get_uint32_t a IPA_BASE_ID)
      \<or> opt_lookup_fails (sysdb_attrs_get_uint32_t a IPA_ID_RANGE_SIZE)
      \<or> opt_lookup_fails (sysdb_attrs_get_uint32_t a IPA_BASE_RID)
      \<or> opt_lookup_fails (sysdb_attrs_get_uint32_t a IPA_SECONDARY_BASE_RID)"
      by (simp add: range_unparsable_def lookup_fails_def)
    have "\<exists>e. range_get_numbers a
                 (range_zero\<lparr>range_info.name := Some v, trusted_dom_sid := sid\<rparr>) = Inl e"
      for sid
      by (rule range_get_numbers_bad [OF _ _ _ _ nums]) (simp_all add: range_zero_def)
    then show ?thesis using cn False
      by (auto simp add: ipa_ranges_parse_entry_def talloc_eq talloc_strdup_eq
          range_get_trusted_dom_sid_eq opt_lookup_fails_def split: sum.splits)
  qed
qed

lemma parse_entry_good:
  assumes "\<not> range_unparsable a"
  shows "ipa_ranges_parse_entry m a =
     (if alloc_fails_within (range_entry_allocs a) m
      then (Inl ENOMEM, snd (ipa_ranges_parse_entry m a))
      else (Inr (range_of a), drop (range_entry_allocs a) m))"
proof -
  from assms obtain v where cn: "sysdb_attrs_get_string a IPA_CN = Inr v"
    by (cases "sysdb_attrs_get_string a IPA_CN")
      (simp_all add: range_unparsable_def lookup_fails_def)
  from assms have nums:
    "\<not> opt_lookup_fails (sysdb_attrs_get_uint32_t a IPA_BASE_ID)"
    "\<not> opt_lookup_fails (sysdb_attrs_get_uint32_t a IPA_ID_RANGE_SIZE)"
    "\<not> opt_lookup_fails (sysdb_attrs_get_uint32_t a IPA_BASE_RID)"
    "\<not> opt_lookup_fails (sysdb_attrs_get_uint32_t a IPA_SECONDARY_BASE_RID)"
    and sid: "\<not> opt_lookup_fails (sysdb_attrs_get_string a IPA_TRUSTED_DOMAIN_SID)"
    by (simp_all add: range_unparsable_def)
  have num_eq:
    "range_get_numbers a (range_zero\<lparr>range_info.name := Some v, trusted_dom_sid := s\<rparr>) =
       Inr (range_of a\<lparr>trusted_dom_sid := s\<rparr>)" for s
    by (simp add: range_get_numbers_eq range_zero_def nums range_of_def cn opt_string_def)
  show ?thesis
  proof (cases "sysdb_attrs_get_string a IPA_TRUSTED_DOMAIN_SID")
    case (Inl e)
    with sid have "e = ENOENT" by (simp add: opt_lookup_fails_def)
    with Inl show ?thesis
      by (simp add: ipa_ranges_parse_entry_def talloc_eq talloc_strdup_eq cn num_eq
          range_get_trusted_dom_sid_eq range_entry_allocs_def numeral_2_eq_2
          alloc_fails_within_Suc range_of_def opt_string_def)
  next
    case (Inr w)
    then show ?thesis
      by (simp add: ipa_ranges_parse_entry_def talloc_eq talloc_strdup_eq cn num_eq
          range_get_trusted_dom_sid_eq range_entry_allocs_def numeral_3_eq_3
          alloc_fails_within_Suc range_of_def opt_string_def)
  qed
qed

lemma parse_loop_fails:
  "list_ex range_unparsable results
     \<or> alloc_fails_within (sum_list (map range_entry_allocs results)) m \<Longrightarrow>
   \<exists>e. fst (ipa_ranges_parse_loop m results) = Inl e"
proof (induction results arbitrary: m)
  case Nil
  then show ?case by simp
next
  case (Cons a as)
  show ?case
  proof (cases "range_unparsable a")
    case True
    from parse_entry_bad [OF this, of m] show ?thesis
      by (auto split: prod.splits sum.splits)
  next
    case False
    note good = parse_entry_good [OF False, of m]
    show ?thesis
    proof (cases "alloc_fails_within (range_entry_allocs a) m")
      case True
      with good show ?thesis
        by (cases "ipa_ranges_parse_entry m a") simp
    next
      case ok: False
      with Cons.prems False
      have "list_ex range_unparsable as
          \<or> alloc_fails_within (sum_list (map range_entry_allocs as))
               (drop (range_entry_allocs a) m)"
        by (simp add: alloc_fails_within_add)
      from Cons.IH [OF this] good ok show ?thesis
        by (auto split: prod.splits sum.splits)
    qed
  qed
qed

lemma parse_loop_succeeds:
  "\<not> list_ex range_unparsable results \<Longrightarrow>
   \<not> alloc_fails_within (sum_list (map range_entry_allocs results)) m \<Longrightarrow>
   fst (ipa_ranges_parse_loop m results) = Inr (map range_of results)"
proof (induction results arbitrary: m)
  case Nil
  then show ?case by simp
next
  case (Cons a as)
  from Cons.prems have good: "\<not> range_unparsable a"
    and ok: "\<not> alloc_fails_within (range_entry_allocs a) m"
    and rest: "\<not> list_ex range_unparsable as"
      "\<not> alloc_fails_within (sum_list (map range_entry_allocs as))
           (drop (range_entry_allocs a) m)"
    by (simp_all add: alloc_fails_within_add)
  from Cons.IH [OF rest] parse_entry_good [OF good, of m] ok show ?case
    by (auto split: prod.splits sum.splits)
qed

text \<open>
  C9 (as amended). \<open>ipa_ranges_parse_results\<close> fails, returning the error and no list,
  exactly when some raw result is unparsable (its name lookup fails, or the lookup of one
  of its optional fields fails with an error other than \<open>ENOENT\<close>) or one of the
  allocations the parse makes fails; otherwise it returns one record per raw result, in
  input order, each absent number zero and an absent trusted-domain identifier unset.
\<close>

theorem ipa_ranges_parse_results_fails_iff:
  "(if list_ex range_unparsable results \<or> alloc_fails_within (range_allocs results) m
    then \<exists>e. fst (ipa_ranges_parse_results m results) = Inl e
    else fst (ipa_ranges_parse_results m results) = Inr (map range_of results))"
proof -
  have split:
    "alloc_fails_within (range_allocs results) m =
       (alloc_fails_within (Suc 0) m
        \<or> alloc_fails_within (sum_list (map range_entry_allocs results)) (drop (Suc 0) m))"
    unfolding range_allocs_def
    using alloc_fails_within_add [of 1 "sum_list (map range_entry_allocs results)" m]
    by simp
  show ?thesis
  proof (cases "alloc_fails_within (Suc 0) m")
    case True
    then show ?thesis
      by (simp add: ipa_ranges_parse_results_def talloc_eq split)
  next
    case False
    then show ?thesis
      using parse_loop_fails [of results "drop (Suc 0) m"]
        parse_loop_succeeds [of results "drop (Suc 0) m"]
      by (simp add: ipa_ranges_parse_results_def talloc_eq split)
  qed
qed

text \<open>
  C9 as stated fails: with an allocator that never fails, a single raw result that has
  its name, and whose base id is there but cannot be read, makes the parse fail.
\<close>

theorem ipa_ranges_parse_results_unreadable_counterexample:
  "sysdb_attrs_get_string raw_range_unreadable_base IPA_CN = Inr ''R1''
   \<and> fst (ipa_ranges_parse_results [] [raw_range_unreadable_base]) = Inl ERANGE"
  by (simp add: raw_range_unreadable_base_def sysdb_attrs_get_string_def
      sysdb_attrs_get_uint32_t_def ipa_ranges_parse_results_def ipa_ranges_parse_entry_def
      talloc_strdup_def range_get_trusted_dom_sid_def range_get_numbers_def
      range_get_uint32_def range_zero_def
      IPA_CN_def IPA_TRUSTED_DOMAIN_SID_def IPA_BASE_ID_def)

text \<open>The example of section 8 of the spec: a range with a name, a base id and a size.\<close>

lemma ipa_ranges_parse_results_example:
  "fst (ipa_ranges_parse_results [] [raw_range ''R1'' 1000 200000]) =
     Inr [\<lparr>range_info.name = Some ''R1'', base_id = 1000, id_range_size = 200000,
           base_rid = 0, secondary_base_rid = 0, trusted_dom_sid = None\<rparr>]"
  by (simp add: raw_range_def sysdb_attrs_get_string_def
      sysdb_attrs_get_uint32_t_def ipa_ranges_parse_results_def ipa_ranges_parse_entry_def
      talloc_strdup_def range_get_trusted_dom_sid_def range_get_numbers_def
      range_get_uint32_def range_zero_def
      IPA_CN_def IPA_TRUSTED_DOMAIN_SID_def IPA_BASE_ID_def IPA_ID_RANGE_SIZE_def
      IPA_BASE_RID_def IPA_SECONDARY_BASE_RID_def)

subsection \<open>Reconciler: the timestamp and the change flag\<close>

lemma refresh_fails_example:
  "ipa_subdomains_refresh 1000 []
     (subdomains_ctx0 [] [] [] [cached_subdom ''a'' ''A'' ''S-1''])
     [raw_empty] False =
   (ENOENT, subdomains_ctx0 [] [] [] [], False, [])"
  by code_simp

lemma refresh_no_change_example:
  "ipa_subdomains_refresh 1000 []
     (subdomains_ctx0 [] [] [] [cached_subdom ''a'' ''A'' ''S-1''])
     [raw_subdom ''a'' ''A'' ''S-1''] False =
   (EOK,
    \<lparr>ipa_subdomains_ctx.search_bases = [], master_search_bases = [],
      ranges_search_bases = [], last_refreshed = 1000,
      subdoms = [cached_subdom ''a'' ''A'' ''S-1'']\<rparr>,
    False, [])"
  by code_simp

text \<open>
  C10. After every call of \<open>ipa_subdomains_refresh\<close>: when it fails, the last-refreshed
  timestamp is zero and the cached list is empty; when it succeeds, the timestamp is the
  current time, whatever the change flag says.
\<close>

theorem ipa_subdomains_refresh_timestamp:
  "ipa_subdomains_refresh now m ctx results changes = (ret, ctx', changes', m') \<Longrightarrow>
   (ret \<noteq> EOK \<longrightarrow> last_refreshed ctx' = 0 \<and> subdoms ctx' = [])
   \<and> (ret = EOK \<longrightarrow> last_refreshed ctx' = now)"
  by (auto simp add: ipa_subdomains_refresh_def split: prod.splits if_splits)

text \<open>
  Witness for C10: a refresh that fails on a result with no name, and one that succeeds
  without changes at time 1000.
\<close>

theorem ipa_subdomains_refresh_timestamp_witness:
  "fst (ipa_subdomains_refresh 1000 []
          (subdomains_ctx0 [] [] [] [cached_subdom ''a'' ''A'' ''S-1''])
          [raw_empty] False) = ENOENT
   \<and> last_refreshed (fst (snd (ipa_subdomains_refresh 1000 []
          (subdomains_ctx0 [] [] [] [cached_subdom ''a'' ''A'' ''S-1''])
          [raw_empty] False))) = 0
   \<and> subdoms (fst (snd (ipa_subdomains_refresh 1000 []
          (subdomains_ctx0 [] [] [] [cached_subdom ''a'' ''A'' ''S-1''])
          [raw_empty] False))) = []
   \<and> fst (ipa_subdomains_refresh 1000 []
          (subdomains_ctx0 [] [] [] [cached_subdom ''a'' ''A'' ''S-1''])
          [raw_subdom ''a'' ''A'' ''S-1''] False) = EOK
   \<and> last_refreshed (fst (snd (ipa_subdomains_refresh 1000 []
          (subdomains_ctx0 [] [] [] [cached_subdom ''a'' ''A'' ''S-1''])
          [raw_subdom ''a'' ''A'' ''S-1''] False))) = 1000"
  using ipa_subdomains_refresh_timestamp [OF refresh_fails_example]
    ipa_subdomains_refresh_timestamp [OF refresh_no_change_example]
  by (simp add: refresh_fails_example refresh_no_change_example)

text \<open>
  C1 on the code. The cache holds \<open>a\<close> and \<open>b\<close>, the fetched batch holds \<open>a\<close> alone:
  \<open>b\<close> is removed and \<open>a\<close> stays, and the change flag is still false, since every
  fetched result was matched (\<open>count == h\<close>, line 313) and line 320 is not reached.
\<close>

theorem refresh_removal_not_reported:
  "ipa_subdomains_refresh 1000 []
     (subdomains_ctx0 [] [] []
        [cached_subdom ''a'' ''A'' ''S-1'', cached_subdom ''b'' ''B'' ''S-2''])
     [raw_subdom ''a'' ''A'' ''S-1''] False =
   (EOK,
    \<lparr>ipa_subdomains_ctx.search_bases = [], master_search_bases = [],
      ranges_search_bases = [], last_refreshed = 1000,
      subdoms = [cached_subdom ''a'' ''A'' ''S-1'']\<rparr>,
    False, [])"
  by code_simp

text \<open>
  The same refresh inside a run: the store holds the snapshot \<open>a\<close>, \<open>b\<close>; since the
  flag is false, \<open>sysdb_update_subdomains\<close> is not called, and after the run the store
  still holds \<open>b\<close> while the cache does not.
\<close>

lemma removal_not_persisted:
  "map sysdb_subdom.name
     (subdoms (sd_ctx
        (run [Conn_recv EOK DP_ERR_OK, Search_recv EOK [raw_subdom ''a'' ''A'' ''S-1'']]
           ((state0 [search_base ''s''] [search_base ''m''] [search_base ''r'']
               [cached_subdom ''a'' ''A'' ''S-1'', cached_subdom ''b'' ''B'' ''S-2''])
            \<lparr>be_ctx_sysdb := sysdb0
               \<lparr>stored_subdoms :=
                  [cached_subdom ''a'' ''A'' ''S-1'', cached_subdom ''b'' ''B'' ''S-2'']\<rparr>\<rparr>)))) =
     [Some ''a'']
   \<and> map sysdb_subdom.name
       (stored_subdoms (be_ctx_sysdb
          (run [Conn_recv EOK DP_ERR_OK, Search_recv EOK [raw_subdom ''a'' ''A'' ''S-1'']]
             ((state0 [search_base ''s''] [search_base ''m''] [search_base ''r'']
                 [cached_subdom ''a'' ''A'' ''S-1'', cached_subdom ''b'' ''B'' ''S-2''])
              \<lparr>be_ctx_sysdb := sysdb0
                 \<lparr>stored_subdoms :=
                    [cached_subdom ''a'' ''A'' ''S-1'',
                     cached_subdom ''b'' ''B'' ''S-2'']\<rparr>\<rparr>)))) =
     [Some ''a'', Some ''b'']"
  by code_simp

text \<open>
  C4 on the code. The cache holds \<open>a\<close> with identifier \<open>S-1\<close>, the fetched batch holds
  \<open>a\<close> with the same flat name and identifier \<open>S-2\<close>: after the refresh the entry has no
  flat name, and its identifier is still \<open>S-1\<close> (line 253 clears the flat name in place
  of the identifier).
\<close>

theorem refresh_identifier_change:
  "ipa_subdomains_refresh 1000 []
     (subdomains_ctx0 [] [] [] [cached_subdom ''a'' ''A'' ''S-1''])
     [raw_subdom ''a'' ''A'' ''S-2''] False =
   (EOK,
    \<lparr>ipa_subdomains_ctx.search_bases = [], master_search_bases = [],
      ranges_search_bases = [], last_refreshed = 1000,
      subdoms = [\<lparr>realm = Some ''A'', sysdb_subdom.name = Some ''a'', flat_name = None,
                  id' = Some ''S-1''\<rparr>]\<rparr>,
    False, [])"
  by code_simp

text \<open>A changed flat name alone is taken over.\<close>

lemma refresh_flat_name_change:
  "ipa_subdomains_refresh 1000 []
     (subdomains_ctx0 [] [] [] [cached_subdom ''a'' ''A'' ''S-1''])
     [raw_subdom ''a'' ''A2'' ''S-1''] False =
   (EOK,
    \<lparr>ipa_subdomains_ctx.search_bases = [], master_search_bases = [],
      ranges_search_bases = [], last_refreshed = 1000,
      subdoms = [\<lparr>realm = Some ''A'', sysdb_subdom.name = Some ''a'',
                  flat_name = Some ''A2'', id' = Some ''S-1''\<rparr>]\<rparr>,
    False, [])"
  by code_simp

subsection \<open>The discovery run\<close>

lemma deliver_idle: "pending w = None \<Longrightarrow> deliver ev w = w"
  by (simp add: deliver_def)

lemma fold_deliver_idle: "pending w = None \<Longrightarrow> fold deliver evs w = w"
  by (induction evs) (simp_all add: deliver_idle)

lemma handler_connects:
  assumes "pvt_bet_data w"
    and "\<not> last_refreshed (sd_ctx w) > clock w - IPA_SUBDOMAIN_REFRESH_LIMIT"
    and "\<not> alloc_fails_within 3 (mem w)"
  shows "ipa_subdomains_handler w =
     w\<lparr>mem := drop 3 (mem w),
       pending := Some (Get_conn_done,
           \<lparr>current_filter = None,
            ipa_subdomains_req_ctx.search_bases =
              ipa_subdomains_ctx.search_bases (sd_ctx w),
            search_base_iter = 0, reply = []\<rparr>)\<rparr>"
  using assms
  by (simp add: ipa_subdomains_handler_def talloc_eq numeral_3_eq_3 alloc_fails_within_Suc)

lemma handler_state0:
  "ipa_subdomains_handler (state0 sb mb rb cache) =
     (state0 sb mb rb cache)
       \<lparr>pending := Some (Get_conn_done,
           \<lparr>current_filter = None, ipa_subdomains_req_ctx.search_bases = sb,
            search_base_iter = 0, reply = []\<rparr>)\<rparr>"
  by (simp add: ipa_subdomains_handler_def state0_def subdomains_ctx0_def
      IPA_SUBDOMAIN_REFRESH_LIMIT_def)

text \<open>
  C8. A run that gets as far as the connection attempt, whose connection then fails with
  \<open>dp_error\<close> \<open>DP_ERR_OFFLINE\<close>: whatever events follow, the state at the end is the
  state at the start with the three allocations of the handler taken, no request
  outstanding and one call of the completion callback, with \<open>DP_ERR_OFFLINE\<close>, added. So
  no search was sent, and neither the cached list nor a store was written.
\<close>

theorem offline_run_replies_offline:
  assumes "pvt_bet_data w"
    and "\<not> last_refreshed (sd_ctx w) > clock w - IPA_SUBDOMAIN_REFRESH_LIMIT"
    and "\<not> alloc_fails_within 3 (mem w)"
    and "ret \<noteq> EOK"
  shows "run (Conn_recv ret DP_ERR_OFFLINE # evs) w =
           w\<lparr>mem := drop 3 (mem w), pending := None,
             replies := replies w @ [(DP_ERR_OFFLINE, ret)]\<rparr>"
  unfolding run_def handler_connects [OF assms(1-3)]
  using assms(4)
  by (simp add: deliver_def ipa_subdomains_get_conn_done_def ipa_subdomains_reply_def
      fold_deliver_idle)

text \<open>
  Witness for C8: the connection of a first run fails with \<open>EIO\<close> while offline, and a
  search result delivered after that changes nothing.
\<close>

theorem offline_run_replies_offline_witness:
  "run [Conn_recv EIO DP_ERR_OFFLINE, Search_recv EOK [raw_subdom ''a'' ''A'' ''S-1'']]
       (state0 [search_base ''s''] [search_base ''m''] [search_base ''r''] []) =
     (state0 [search_base ''s''] [search_base ''m''] [search_base ''r''] [])
       \<lparr>replies := [(DP_ERR_OFFLINE, EIO)]\<rparr>"
  using offline_run_replies_offline [of
      "state0 [search_base ''s''] [search_base ''m''] [search_base ''r''] []" EIO
      "[Search_recv EOK [raw_subdom ''a'' ''A'' ''S-1'']]"]
  by (simp add: state0_def subdomains_ctx0_def IPA_SUBDOMAIN_REFRESH_LIMIT_def)

text \<open>
  C7 on the code. With no slave search base configured and a connection that succeeds,
  \<open>ipa_subdomains_handler_get\<close> returns \<open>EOK\<close> and \<open>ipa_subdomains_get_conn_done\<close>
  returns without a reply and without a request outstanding: whatever events follow, the
  completion callback is never called.
\<close>

theorem run_stalls_without_slave_search_base:
  "replies (run (Conn_recv EOK DP_ERR_OK # evs) (state0 [] mb rb cache)) = []
   \<and> pending (run (Conn_recv EOK DP_ERR_OK # evs) (state0 [] mb rb cache)) = None"
proof -
  have "deliver (Conn_recv EOK DP_ERR_OK) (ipa_subdomains_handler (state0 [] mb rb cache))
          = state0 [] mb rb cache"
    unfolding handler_state0
    by (simp add: deliver_def ipa_subdomains_get_conn_done_def
        ipa_subdomains_handler_get_def subdomain_requests_def state0_def)
  then show ?thesis
    by (simp add: run_def fold_deliver_idle state0_def)
qed

text \<open>
  C2 on the code. Two ranges search bases \<open>r1\<close> and \<open>r2\<close> are configured. The run
  succeeds after three searches, on the slave base, on \<open>r1\<close> and on the master base:
  \<open>r2\<close> is never searched, and the ranges stored are those of \<open>r1\<close> alone. When the
  ranges search is outstanding, the cursor is 0 and the accumulator still holds the
  result of the slave stage.
\<close>

theorem ranges_stage_sends_one_search:
  "map fst (sent (run [Conn_recv EOK DP_ERR_OK,
                       Search_recv EOK [raw_subdom ''a'' ''A'' ''S-1''],
                       Search_recv EOK [raw_range ''R1'' 1000 200000],
                       Search_recv EOK [raw_master ''IPA'' ''S-0'']]
                    (state0 [search_base ''s''] [search_base ''m'']
                       [search_base ''r1'', search_base ''r2''] []))) =
     [''s'', ''r1'', ''m'']
   \<and> replies (run [Conn_recv EOK DP_ERR_OK,
                   Search_recv EOK [raw_subdom ''a'' ''A'' ''S-1''],
                   Search_recv EOK [raw_range ''R1'' 1000 200000],
                   Search_recv EOK [raw_master ''IPA'' ''S-0'']]
                (state0 [search_base ''s''] [search_base ''m'']
                   [search_base ''r1'', search_base ''r2''] [])) =
     [(DP_ERR_OK, EOK)]
   \<and> map range_info.name
       (stored_ranges (be_ctx_sysdb
          (run [Conn_recv EOK DP_ERR_OK,
                Search_recv EOK [raw_subdom ''a'' ''A'' ''S-1''],
                Search_recv EOK [raw_range ''R1'' 1000 200000],
                Search_recv EOK [raw_master ''IPA'' ''S-0'']]
             (state0 [search_base ''s''] [search_base ''m'']
                [search_base ''r1'', search_base ''r2''] [])))) =
     [Some ''R1'']
   \<and> map_option
       (\<lambda>(cb, ctx). (cb, search_base_iter ctx, length (reply ctx),
                     map (\<lambda>r. sysdb_attrs_get_string r IPA_CN) (reply ctx)))
       (pending (run [Conn_recv EOK DP_ERR_OK,
                      Search_recv EOK [raw_subdom ''a'' ''A'' ''S-1'']]
                   (state0 [search_base ''s''] [search_base ''m'']
                      [search_base ''r1'', search_base ''r2''] []))) =
     Some (Handler_ranges_done, 0, 1, [Inr ''a''])"
  by code_simp

subsection \<open>The master stage\<close>

lemma master_done_ok:
  assumes "sysdb_attrs_get_string r0 IPA_FLATNAME = Inr f"
    and "sysdb_attrs_get_string r0 IPA_SID = Inr s"
    and "\<not> alloc_fails_within 3 (mem w)"
    and "master_domain_add_info_ret (be_ctx_sysdb w) = EOK"
  shows "ipa_subdomains_handler_master_done EOK (r0 # rs) ctx w =
     w\<lparr>mem := drop 3 (mem w),
       be_ctx_sysdb := (be_ctx_sysdb w)
         \<lparr>master_info :=
            \<lparr>realm = None, sysdb_subdom.name = Some (domain_name (be_ctx_sysdb w)),
             flat_name = Some f, id' = Some s\<rparr>\<rparr>,
       replies := replies w @ [(DP_ERR_OK, EOK)]\<rparr>"
  using assms
  by (simp add: ipa_subdomains_handler_master_done_def talloc_eq talloc_strdup_eq
      numeral_3_eq_3 alloc_fails_within_Suc sysdb_master_domain_add_info_def
      reply_done_def ipa_subdomains_reply_def subdom_zero_def)

text \<open>
  C6 (as amended). The master search is outstanding and its result set is not empty. When
  the first result has both the flat name and the identifier, the three allocations of
  the callback succeed and the store accepts the write, then the master domain record
  stored has the flat name and the identifier of the first result and the name given by
  the store's context, the completion callback is called once with success, and the run
  is over: whatever events follow change nothing.
\<close>

theorem master_stage_persists_first_result:
  assumes "pending w = Some (Handler_master_done, ctx)"
    and "sysdb_attrs_get_string r0 IPA_FLATNAME = Inr f"
    and "sysdb_attrs_get_string r0 IPA_SID = Inr s"
    and "\<not> alloc_fails_within 3 (mem w)"
    and "master_domain_add_info_ret (be_ctx_sysdb w) = EOK"
  shows "fold deliver (Search_recv EOK (r0 # rs) # evs) w =
     w\<lparr>mem := drop 3 (mem w),
       be_ctx_sysdb := (be_ctx_sysdb w)
         \<lparr>master_info :=
            \<lparr>realm = None, sysdb_subdom.name = Some (domain_name (be_ctx_sysdb w)),
             flat_name = Some f, id' = Some s\<rparr>\<rparr>,
       pending := None,
       replies := replies w @ [(DP_ERR_OK, EOK)]\<rparr>"
proof -
  have "deliver (Search_recv EOK (r0 # rs)) w =
      ipa_subdomains_handler_master_done EOK (r0 # rs) ctx (w\<lparr>pending := None\<rparr>)"
    using assms(1) by (simp add: deliver_def)
  also have "\<dots> = w\<lparr>mem := drop 3 (mem w),
       be_ctx_sysdb := (be_ctx_sysdb w)
         \<lparr>master_info :=
            \<lparr>realm = None, sysdb_subdom.name = Some (domain_name (be_ctx_sysdb w)),
             flat_name = Some f, id' = Some s\<rparr>\<rparr>,
       pending := None,
       replies := replies w @ [(DP_ERR_OK, EOK)]\<rparr>"
    using assms(2-5) by (simp add: master_done_ok)
  finally show ?thesis
    by (simp add: fold_deliver_idle)
qed

text \<open>
  Witness for C6: the master search of a first run gives two results, the first with flat
  name \<open>IPA\<close> and identifier \<open>S-0\<close>.
\<close>

theorem master_stage_persists_first_result_witness:
  "fold deliver [Search_recv EOK [raw_master ''IPA'' ''S-0'', raw_empty]] master_wait =
     master_wait
       \<lparr>be_ctx_sysdb := sysdb0
          \<lparr>master_info :=
             \<lparr>realm = None, sysdb_subdom.name = Some ''ipa.test'',
              flat_name = Some ''IPA'', id' = Some ''S-0''\<rparr>\<rparr>,
        pending := None,
        replies := [(DP_ERR_OK, EOK)]\<rparr>"
  using master_stage_persists_first_result [of master_wait _ "raw_master ''IPA'' ''S-0''"
      "''IPA''" "''S-0''" "[raw_empty]" "[]"]
  by (simp add: master_wait_def state0_def sysdb0_def raw_master_def
      sysdb_attrs_get_string_def IPA_FLATNAME_def IPA_SID_def)

text \<open>
  C6 as stated fails: in a first run whose slave and ranges searches give nothing, the
  master search gives a non-empty result set whose first result has no flat name; the
  run ends with a failure (\<open>ENOENT\<close>) and no master domain record is stored.
\<close>

theorem master_stage_first_result_without_flat_name:
  "map fst (sent (run [Conn_recv EOK DP_ERR_OK, Search_recv EOK [], Search_recv EOK [],
                       Search_recv EOK [raw_empty]]
              (state0 [search_base ''s''] [search_base ''m''] [search_base ''r''] []))) =
     [''s'', ''r'', ''m'']
   \<and> replies (run [Conn_recv EOK DP_ERR_OK, Search_recv EOK [], Search_recv EOK [],
                 Search_recv EOK [raw_empty]]
              (state0 [search_base ''s''] [search_base ''m''] [search_base ''r''] [])) =
     [(DP_ERR_FATAL, ENOENT)]
   \<and> master_info (be_ctx_sysdb
       (run [Conn_recv EOK DP_ERR_OK, Search_recv EOK [], Search_recv EOK [],
             Search_recv EOK [raw_empty]]
          (state0 [search_base ''s''] [search_base ''m''] [search_base ''r''] []))) =
     subdom_zero"
  by code_simp

subsection \<open>Failures and the refresh gate\<close>

lemma refresh_done_label:
  "ipa_subdomains_refresh now m ctx results changes = (ret, ctx', changes', m') \<Longrightarrow>
   ret \<noteq> EOK \<Longrightarrow> last_refreshed ctx' = 0 \<and> subdoms ctx' = []"
  by (auto simp add: ipa_subdomains_refresh_def split: prod.splits if_splits)

lemma handler_get_exhausted:
  "length (ipa_subdomains_req_ctx.search_bases ctx) \<le> search_base_iter ctx \<Longrightarrow>
   type \<noteq> IPA_SUBDOMAINS_MAX \<Longrightarrow>
   ipa_subdomains_handler_get ctx type w = (EOK, ctx, w)"
  by (cases type) (simp_all add: ipa_subdomains_handler_get_def subdomain_requests_def)

lemma handler_done_refresh_fails:
  assumes "fst (ipa_subdomains_refresh (clock w) (mem w) (sd_ctx w) (reply ctx) False) \<noteq> EOK"
  shows "last_refreshed (sd_ctx (handler_done_refresh ctx w)) = 0
       \<and> subdoms (sd_ctx (handler_done_refresh ctx w)) = []
       \<and> replies (handler_done_refresh ctx w) =
            replies w @ [(DP_ERR_FATAL,
              fst (ipa_subdomains_refresh (clock w) (mem w) (sd_ctx w) (reply ctx) False))]"
proof -
  obtain r sd ch m1 where
    eq: "ipa_subdomains_refresh (clock w) (mem w) (sd_ctx w) (reply ctx) False =
           (r, sd, ch, m1)"
    by (metis prod_cases4)
  with assms have "r \<noteq> EOK" by simp
  with refresh_done_label [OF eq] have "last_refreshed sd = 0" "subdoms sd = []"
    by simp_all
  with eq \<open>r \<noteq> EOK\<close> show ?thesis
    by (simp add: handler_done_refresh_def ipa_subdomains_reply_def)
qed

lemma handler_not_skipped:
  assumes "last_refreshed (sd_ctx w) = 0" and "IPA_SUBDOMAIN_REFRESH_LIMIT \<le> clock w"
  shows "replies (ipa_subdomains_handler w) \<noteq> replies w @ [(DP_ERR_OK, EOK)]"
  using assms
  by (simp add: ipa_subdomains_handler_def reply_done_def ipa_subdomains_reply_def talloc_eq)

text \<open>
  C5 (as amended). The search on the last slave search base completes, its results are
  appended to the accumulator, and the reconciliation of the accumulated results fails.
  Then the run ends with one call of the completion callback, with \<open>DP_ERR_FATAL\<close> and
  an error, the last-refreshed timestamp is zero, and an invocation of the handler at any
  later time \<open>t\<close> (at least 5 seconds after the epoch) is not answered with success by
  the refresh gate.
\<close>

theorem reconciliation_failure_resets_timestamp:
  assumes "length (ipa_subdomains_req_ctx.search_bases ctx) \<le> Suc (search_base_iter ctx)"
    and "rs = [] \<or> \<not> alloc_fails_within 1 (mem w)"
    and "fst (ipa_subdomains_refresh (clock w) (if rs = [] then mem w else drop 1 (mem w))
               (sd_ctx w) (reply ctx @ rs) False) \<noteq> EOK"
    and "IPA_SUBDOMAIN_REFRESH_LIMIT \<le> t"
  shows "(\<exists>e. e \<noteq> EOK \<and> replies (ipa_subdomains_handler_done EOK rs ctx w) =
                 replies w @ [(DP_ERR_FATAL, e)])
       \<and> last_refreshed (sd_ctx (ipa_subdomains_handler_done EOK rs ctx w)) = 0
       \<and> replies (ipa_subdomains_handler
                    ((ipa_subdomains_handler_done EOK rs ctx w)\<lparr>clock := t\<rparr>)) \<noteq>
           replies (ipa_subdomains_handler_done EOK rs ctx w) @ [(DP_ERR_OK, EOK)]"
proof -
  define m1 where "m1 = (if rs = [] then mem w else drop 1 (mem w))"
  define ctx1 where
    "ctx1 = ctx\<lparr>reply := reply ctx @ rs, search_base_iter := search_base_iter ctx + 1\<rparr>"
  define w1 where "w1 = w\<lparr>mem := m1\<rparr>"
  have acc: "(if rs \<noteq> [] then talloc (mem w) else (True, mem w)) = (True, m1)"
    using assms(2) by (auto simp add: talloc_eq m1_def)
  have get: "ipa_subdomains_handler_get ctx1 IPA_SUBDOMAINS_SLAVE w1 = (EOK, ctx1, w1)"
    using assms(1) by (intro handler_get_exhausted) (simp_all add: ctx1_def)
  have done_eq: "ipa_subdomains_handler_done EOK rs ctx w = handler_done_refresh ctx1 w1"
    unfolding ipa_subdomains_handler_done_def acc
    using get by (simp add: ctx1_def w1_def)
  have fails:
    "fst (ipa_subdomains_refresh (clock w1) (mem w1) (sd_ctx w1) (reply ctx1) False) \<noteq> EOK"
    using assms(3) by (simp add: w1_def ctx1_def m1_def)
  note res = handler_done_refresh_fails [OF fails]
  have skip:
    "replies (ipa_subdomains_handler ((handler_done_refresh ctx1 w1)\<lparr>clock := t\<rparr>)) \<noteq>
       replies ((handler_done_refresh ctx1 w1)\<lparr>clock := t\<rparr>) @ [(DP_ERR_OK, EOK)]"
    using res assms(4) by (intro handler_not_skipped) simp_all
  from res fails skip show ?thesis
    unfolding done_eq by (simp add: w1_def)
qed

lemma refresh_no_name_example:
  "fst (ipa_subdomains_refresh 1000 []
     ((subdomains_ctx0 [search_base ''s''] [search_base ''m''] [search_base ''r'']
        [cached_subdom ''a'' ''A'' ''S-1''])\<lparr>last_refreshed := 990\<rparr>)
     [raw_empty] False) = ENOENT"
  by code_simp

text \<open>
  Witness for C5: the cache was refreshed at time 990; at time 1000 the one slave search
  gives a result with no name, the reconciliation fails, and the invocation at time 1002
  is not skipped.
\<close>

theorem reconciliation_failure_resets_timestamp_witness:
  "(\<exists>e. e \<noteq> EOK \<and>
      replies (ipa_subdomains_handler_done EOK [raw_empty] slave_wait_ctx slave_wait) =
        [(DP_ERR_FATAL, e)])
   \<and> last_refreshed
       (sd_ctx (ipa_subdomains_handler_done EOK [raw_empty] slave_wait_ctx slave_wait)) = 0
   \<and> replies (ipa_subdomains_handler
                ((ipa_subdomains_handler_done EOK [raw_empty] slave_wait_ctx slave_wait)
                 \<lparr>clock := 1002\<rparr>)) \<noteq>
       replies (ipa_subdomains_handler_done EOK [raw_empty] slave_wait_ctx slave_wait)
         @ [(DP_ERR_OK, EOK)]"
proof -
  have h1: "length (ipa_subdomains_req_ctx.search_bases slave_wait_ctx)
              \<le> Suc (search_base_iter slave_wait_ctx)"
    by (simp add: slave_wait_ctx_def)
  have h2: "[raw_empty] = [] \<or> \<not> alloc_fails_within 1 (mem slave_wait)"
    by (simp add: slave_wait_def state0_def)
  have h3: "fst (ipa_subdomains_refresh (clock slave_wait)
               (if [raw_empty] = [] then mem slave_wait else drop 1 (mem slave_wait))
               (sd_ctx slave_wait) (reply slave_wait_ctx @ [raw_empty]) False) \<noteq> EOK"
    using refresh_no_name_example
    by (simp add: slave_wait_def slave_wait_ctx_def state0_def)
  have h4: "IPA_SUBDOMAIN_REFRESH_LIMIT \<le> 1002"
    by (simp add: IPA_SUBDOMAIN_REFRESH_LIMIT_def)
  from reconciliation_failure_resets_timestamp [OF h1 h2 h3 h4] show ?thesis
    by (simp add: slave_wait_def state0_def)
qed

text \<open>
  C5 as stated fails, on both of its examples. In a first run at time 1000 the
  reconciliation succeeds and the ranges search then gives a result with no name: the run
  fails with \<open>ENOENT\<close>, the timestamp stays 1000, and the invocation at time 1002 is
  skipped (answered with success at once). In a first run in which the store refuses the
  subdomain snapshot with \<open>EIO\<close>, the run fails with \<open>EIO\<close> and the timestamp stays
  1000.
\<close>

theorem later_failures_keep_timestamp:
  "replies (run [Conn_recv EOK DP_ERR_OK,
                 Search_recv EOK [raw_subdom ''a'' ''A'' ''S-1''],
                 Search_recv EOK [raw_empty]]
              (state0 [search_base ''s''] [search_base ''m''] [search_base ''r''] [])) =
     [(DP_ERR_FATAL, ENOENT)]
   \<and> last_refreshed (sd_ctx
       (run [Conn_recv EOK DP_ERR_OK,
             Search_recv EOK [raw_subdom ''a'' ''A'' ''S-1''],
             Search_recv EOK [raw_empty]]
          (state0 [search_base ''s''] [search_base ''m''] [search_base ''r''] []))) = 1000
   \<and> replies (ipa_subdomains_handler
       ((run [Conn_recv EOK DP_ERR_OK,
              Search_recv EOK [raw_subdom ''a'' ''A'' ''S-1''],
              Search_recv EOK [raw_empty]]
          (state0 [search_base ''s''] [search_base ''m''] [search_base ''r''] []))
        \<lparr>clock := 1002\<rparr>)) =
     [(DP_ERR_FATAL, ENOENT), (DP_ERR_OK, EOK)]
   \<and> replies (run [Conn_recv EOK DP_ERR_OK,
                   Search_recv EOK [raw_subdom ''a'' ''A'' ''S-1'']]
                ((state0 [search_base ''s''] [search_base ''m''] [search_base ''r''] [])
                 \<lparr>be_ctx_sysdb := sysdb0\<lparr>update_subdomains_ret := EIO\<rparr>\<rparr>)) =
     [(DP_ERR_FATAL, EIO)]
   \<and> last_refreshed (sd_ctx
       (run [Conn_recv EOK DP_ERR_OK,
             Search_recv EOK [raw_subdom ''a'' ''A'' ''S-1'']]
          ((state0 [search_base ''s''] [search_base ''m''] [search_base ''r''] [])
           \<lparr>be_ctx_sysdb := sysdb0\<lparr>update_subdomains_ret := EIO\<rparr>\<rparr>))) = 1000"
  by code_simp

subsection \<open>Reconciler: the names in the cache\<close>

declare refresh_find.simps [simp del]
declare refresh_cached.simps [simp del]
declare refresh_append.simps [simp del]

lemma subdom_parse_name_name:
  "subdom_parse_name m v sd = (Inr sd', m') \<Longrightarrow> sysdb_subdom.name sd' = Some v"
  by (auto simp add: subdom_parse_name_def talloc_strdup_eq split: if_splits)

lemma subdom_parse_realm_name:
  "subdom_parse_realm m sd = (Inr sd', m') \<Longrightarrow> sysdb_subdom.name sd' = sysdb_subdom.name sd"
  by (auto simp add: subdom_parse_realm_def name_to_realm_def talloc_strdup_eq
      split: if_splits option.splits)

lemma subdom_parse_flat_name_name:
  "subdom_parse_flat_name m a sd = (Inr sd', m') \<Longrightarrow>
   sysdb_subdom.name sd' = sysdb_subdom.name sd"
  by (auto simp add: subdom_parse_flat_name_def talloc_strdup_eq Let_def
      split: if_splits sum.splits)

lemma subdom_parse_id_name:
  "subdom_parse_id m a sd = (Inr sd', m') \<Longrightarrow> sysdb_subdom.name sd' = sysdb_subdom.name sd"
  by (auto simp add: subdom_parse_id_def talloc_strdup_eq Let_def
      split: if_splits sum.splits)

lemma ipa_subdom_parse_name:
  assumes "ipa_subdom_parse m a sd = (Inr sd', m')"
  shows "sysdb_subdom.name sd' = cn_of a \<and> cn_of a \<noteq> None"
proof (cases "sysdb_attrs_get_string a IPA_CN")
  case (Inl e)
  with assms show ?thesis by (simp add: ipa_subdom_parse_def)
next
  case (Inr v)
  with assms obtain sd1 m1 sd2 m2 sd3 m3 where
    "subdom_parse_name m v sd = (Inr sd1, m1)"
    "subdom_parse_realm m1 sd1 = (Inr sd2, m2)"
    "subdom_parse_flat_name m2 a sd2 = (Inr sd3, m3)"
    "subdom_parse_id m3 a sd3 = (Inr sd', m')"
    by (auto simp add: ipa_subdom_parse_def split: prod.splits sum.splits)
  then have "sysdb_subdom.name sd' = Some v"
    by (simp add: subdom_parse_name_name subdom_parse_realm_name
        subdom_parse_flat_name_name subdom_parse_id_name)
  with Inr show ?thesis by (simp add: cn_of_def opt_string_def)
qed

lemma refresh_find_hit:
  "refresh_find F handled nm c = Inr k \<Longrightarrow> k < length F \<Longrightarrow>
   \<not> handled ! k \<and> cn_of (F ! k) = nm"
proof (induction F handled nm c rule: refresh_find.induct)
  case (1 F handled nm c)
  from "1.prems" show ?case
    by (subst (asm) refresh_find.simps)
      (auto simp add: cn_of_def opt_string_def split: if_splits sum.splits
        dest: "1.IH")
qed

lemma handled_names_update:
  "c < length F \<Longrightarrow> length handled = length F \<Longrightarrow> \<not> handled ! c \<Longrightarrow>
   mset (handled_names F (handled[c := True])) =
     add_mset (cn_of (F ! c)) (mset (handled_names F handled))"
proof (induction F arbitrary: handled c)
  case Nil
  then show ?case by simp
next
  case (Cons r F)
  then obtain b bs where h: "handled = b # bs" by (cases handled) auto
  show ?case
  proof (cases c)
    case 0
    with Cons.prems h show ?thesis by (simp add: handled_names_def)
  next
    case (Suc c')
    with Cons.prems h have "mset (handled_names F (bs[c' := True])) =
        add_mset (cn_of (F ! c')) (mset (handled_names F bs))"
      by (intro Cons.IH) simp_all
    with Suc h show ?thesis by (simp add: handled_names_def)
  qed
qed

lemma handled_names_none: "handled_names F (replicate (length F) False) = []"
  by (induction F) (simp_all add: handled_names_def)

lemma names_split:
  "length handled = length F \<Longrightarrow>
   mset (handled_names F handled) + mset (unhandled_names F handled) = mset (map cn_of F)"
  by (induction F handled rule: list_induct2')
    (simp_all add: handled_names_def unhandled_names_def)

lemma refresh_cached_names:
  "refresh_cached m F sds handled i h = (Inr (sds', handled', h'), m') \<Longrightarrow>
   length handled = length F \<Longrightarrow> i \<le> length sds \<Longrightarrow>
   mset (map sysdb_subdom.name (take i sds)) = mset (handled_names F handled) \<Longrightarrow>
   None \<notin> set (map sysdb_subdom.name (take i sds)) \<Longrightarrow>
   mset (map sysdb_subdom.name sds') = mset (handled_names F handled')
   \<and> length handled' = length F
   \<and> None \<notin> set (map sysdb_subdom.name sds')"
proof (induction m F sds handled i h rule: refresh_cached.induct)
  case (1 m F sds handled i h)
  show ?case
  proof (cases "i < length sds")
    case False
    with "1.prems" show ?thesis
      by (subst (asm) refresh_cached.simps) simp
  next
    case True
    show ?thesis
    proof (cases "refresh_find F handled (sysdb_subdom.name (sds ! i)) 0")
      case (Inl e)
      with True "1.prems"(1) show ?thesis
        by (subst (asm) refresh_cached.simps) simp
    next
      case (Inr c)
      show ?thesis
      proof (cases "length F \<le> c")
        case gone: True
        with True Inr "1.prems"(1)
        have rec: "refresh_cached m F (take i sds @ drop (Suc i) sds) handled i h =
                     (Inr (sds', handled', h'), m')"
          by (subst (asm) refresh_cached.simps) simp
        have tk: "take i (take i sds @ drop (Suc i) sds) = take i sds"
          using True by simp
        show ?thesis
          using "1.IH"(1) [OF True Inr gone rec] "1.prems"(2-5) True
          by (simp add: tk)
      next
        case found: False
        then have c: "c < length F" by simp
        from refresh_find_hit [OF Inr c]
        have nh: "\<not> handled ! c" and nm: "cn_of (F ! c) = sysdb_subdom.name (sds ! i)"
          by simp_all
        obtain x y where p: "(x, y) = ipa_subdom_parse m (F ! c) (sds ! i)"
          by (metis surj_pair)
        with True Inr found "1.prems"(1) obtain sd where x: "x = Inr sd"
          and rec: "refresh_cached y F (sds[i := sd]) (handled[c := True]) (Suc i) (Suc h) =
                      (Inr (sds', handled', h'), m')"
          by (subst (asm) refresh_cached.simps) (auto split: prod.splits sum.splits)
        from p x have "ipa_subdom_parse m (F ! c) (sds ! i) = (Inr sd, y)" by simp
        from ipa_subdom_parse_name [OF this]
        have sdn: "sysdb_subdom.name sd = cn_of (F ! c)" "cn_of (F ! c) \<noteq> None"
          by simp_all
        have tk: "take (Suc i) (sds[i := sd]) = take i sds @ [sd]"
          using True by (simp add: take_Suc_conv_app_nth)
        have "mset (map sysdb_subdom.name (take (Suc i) (sds[i := sd]))) =
                mset (handled_names F (handled[c := True]))"
          using "1.prems"(2,4) c nh sdn
          by (simp add: tk handled_names_update)
        moreover have "None \<notin> set (map sysdb_subdom.name (take (Suc i) (sds[i := sd])))"
          using "1.prems"(5) sdn by (auto simp add: tk)
        ultimately show ?thesis
          using "1.IH"(2) [OF True Inr found p x rec] "1.prems"(2) True
          by simp
      qed
    qed
  qed
qed

lemma refresh_append_names:
  "refresh_append m F handled sds c = (Inr sds', m') \<Longrightarrow>
   length handled = length F \<Longrightarrow>
   map sysdb_subdom.name sds' =
     map sysdb_subdom.name sds @ unhandled_names (drop c F) (drop c handled)
   \<and> None \<notin> set (unhandled_names (drop c F) (drop c handled))"
proof (induction m F handled sds c rule: refresh_append.induct)
  case (1 m F handled sds c)
  show ?case
  proof (cases "c < length F")
    case False
    with "1.prems" show ?thesis
      by (subst (asm) refresh_append.simps) (simp add: unhandled_names_def)
  next
    case True
    with "1.prems"(2) have dr: "drop c F = F ! c # drop (Suc c) F"
      "drop c handled = handled ! c # drop (Suc c) handled"
      by (simp_all add: Cons_nth_drop_Suc)
    show ?thesis
    proof (cases "handled ! c")
      case h: True
      with True "1.prems"(1)
      have rec: "refresh_append m F handled sds (Suc c) = (Inr sds', m')"
        by (subst (asm) refresh_append.simps) simp
      from "1.IH"(1) [OF True h rec "1.prems"(2)] h show ?thesis
        by (simp add: dr unhandled_names_def)
    next
      case h: False
      obtain x y where p: "(x, y) = ipa_subdom_parse m (F ! c) subdom_zero"
        by (metis surj_pair)
      with True h "1.prems"(1) obtain sd where x: "x = Inr sd"
        and rec: "refresh_append y F handled (sds @ [sd]) (Suc c) = (Inr sds', m')"
        by (subst (asm) refresh_append.simps) (auto split: prod.splits sum.splits)
      from p x have "ipa_subdom_parse m (F ! c) subdom_zero = (Inr sd, y)" by simp
      from ipa_subdom_parse_name [OF this]
      have sdn: "sysdb_subdom.name sd = cn_of (F ! c)" "cn_of (F ! c) \<noteq> None"
        by simp_all
      from "1.IH"(2) [OF True h p x rec "1.prems"(2)] h sdn show ?thesis
        by (auto simp add: dr unhandled_names_def)
    qed
  qed
qed

lemma get_string_error: "sysdb_attrs_get_string a n = Inl e \<Longrightarrow> e \<noteq> EOK"
  by (auto simp add: sysdb_attrs_get_string_def split: attr.splits)

lemma subdom_parse_name_error: "subdom_parse_name m v sd = (Inl e, m') \<Longrightarrow> e \<noteq> EOK"
  by (auto simp add: subdom_parse_name_def talloc_strdup_eq split: if_splits)

lemma subdom_parse_realm_error: "subdom_parse_realm m sd = (Inl e, m') \<Longrightarrow> e \<noteq> EOK"
  by (auto simp add: subdom_parse_realm_def name_to_realm_def talloc_strdup_eq
      split: if_splits option.splits)

lemma subdom_parse_flat_name_error:
  "subdom_parse_flat_name m a sd = (Inl e, m') \<Longrightarrow> e \<noteq> EOK"
  by (auto simp add: subdom_parse_flat_name_def talloc_strdup_eq Let_def
      split: if_splits sum.splits dest: get_string_error)

lemma subdom_parse_id_error: "subdom_parse_id m a sd = (Inl e, m') \<Longrightarrow> e \<noteq> EOK"
  by (auto simp add: subdom_parse_id_def talloc_strdup_eq Let_def
      split: if_splits sum.splits dest: get_string_error)

lemma ipa_subdom_parse_error: "ipa_subdom_parse m a sd = (Inl e, m') \<Longrightarrow> e \<noteq> EOK"
  by (auto simp add: ipa_subdom_parse_def split: sum.splits prod.splits
      dest: get_string_error subdom_parse_name_error subdom_parse_realm_error
        subdom_parse_flat_name_error subdom_parse_id_error)

lemma refresh_find_error: "refresh_find F handled nm c = Inl e \<Longrightarrow> e \<noteq> EOK"
proof (induction F handled nm c rule: refresh_find.induct)
  case (1 F handled nm c)
  from "1.prems" show ?case
    by (subst (asm) refresh_find.simps)
      (auto split: if_splits sum.splits dest: "1.IH" get_string_error)
qed

lemma refresh_cached_error:
  "refresh_cached m F sds handled i h = (Inl e, m') \<Longrightarrow> e \<noteq> EOK"
proof (induction m F sds handled i h rule: refresh_cached.induct)
  case (1 m F sds handled i h)
  from "1.prems" show ?case
    by (subst (asm) refresh_cached.simps)
      (auto split: if_splits sum.splits prod.splits
        dest: "1.IH" refresh_find_error ipa_subdom_parse_error)
qed

lemma refresh_append_error:
  "refresh_append m F handled sds c = (Inl e, m') \<Longrightarrow> e \<noteq> EOK"
proof (induction m F handled sds c rule: refresh_append.induct)
  case (1 m F handled sds c)
  from "1.prems" show ?case
    by (subst (asm) refresh_append.simps)
      (auto split: if_splits sum.splits prod.splits
        dest: "1.IH" ipa_subdom_parse_error)
qed

lemma count_fetched_names:
  "count (mset (map cn_of F)) (Some v) = count (mset (fetched_names F)) v"
  by (induction F) (auto simp add: cn_of_def opt_string_def split: sum.splits)

lemma distinct_sub_names:
  assumes "mset ys \<subseteq># mset (map cn_of F)" and "None \<notin> set ys"
    and "distinct (fetched_names F)"
  shows "distinct ys"
proof -
  have "count (mset ys) y \<le> 1" for y
  proof (cases y)
    case None
    with assms(2) have "count (mset ys) y = 0" by (simp add: count_mset_0_iff)
    then show ?thesis by arith
  next
    case (Some v)
    have "count (mset ys) (Some v) \<le> count (mset (map cn_of F)) (Some v)"
      using assms(1) by (rule mset_subset_eq_count)
    also have "\<dots> = count (mset (fetched_names F)) v"
      by (rule count_fetched_names)
    also have "\<dots> \<le> 1"
      using assms(3) by (simp add: distinct_count_atmost_1)
    finally show ?thesis using Some by simp
  qed
  then show ?thesis
    by (metis count_mset_0_iff distinct_count_atmost_1 le_antisym not_less_eq_eq
        One_nat_def le_zero_eq nat_le_linear)
qed


text \<open>
  C3 (as amended). When no two fetched results carry the same name, the cache that
  \<open>ipa_subdomains_refresh\<close> leaves holds no two entries with the same name, whatever
  the cache held before and whether the refresh succeeds or fails.
\<close>

theorem refresh_names_distinct:
  assumes "distinct (fetched_names F)"
    and "ipa_subdomains_refresh now m ctx F changes = (ret, ctx', changes', m')"
  shows "distinct (map sysdb_subdom.name (subdoms ctx'))"
proof (cases "ret = EOK")
  case False
  with assms(2) show ?thesis
    by (auto simp add: ipa_subdomains_refresh_def split: prod.splits if_splits)
next
  case True
  obtain sds where body: "refresh_body m (subdoms ctx) F changes = (EOK, sds, changes', m')"
    and sub: "subdoms ctx' = sds"
    using assms(2) True
    by (auto simp add: ipa_subdomains_refresh_def split: prod.splits if_splits)
  have init: "mset (map sysdb_subdom.name (take 0 (subdoms ctx))) =
                mset (handled_names F (replicate (length F) False))"
    by (simp add: handled_names_none)
  obtain sds1 handled h m1 where
    cached: "refresh_cached m F (subdoms ctx) (replicate (length F) False) 0 0 =
               (Inr (sds1, handled, h), m1)"
    using body
    by (auto simp add: refresh_body_def split: prod.splits sum.splits if_splits
        dest: refresh_cached_error)
  from refresh_cached_names [OF cached _ _ init]
  have inv: "mset (map sysdb_subdom.name sds1) = mset (handled_names F handled)"
    "length handled = length F" "None \<notin> set (map sysdb_subdom.name sds1)"
    by simp_all
  have "mset (map sysdb_subdom.name sds) \<subseteq># mset (map cn_of F)
        \<and> None \<notin> set (map sysdb_subdom.name sds)"
  proof (cases "length F = h")
    case True
    with body cached have "sds = sds1"
      by (simp add: refresh_body_def)
    with inv names_split [OF inv(2)] show ?thesis
      by (metis mset_subset_eq_add_left)
  next
    case False
    with body cached obtain m2 where
      app: "refresh_append m2 F handled sds1 0 = (Inr sds, m')"
      by (auto simp add: refresh_body_def split: prod.splits sum.splits if_splits
          dest: refresh_append_error)
    from refresh_append_names [OF app inv(2)]
    have "map sysdb_subdom.name sds = map sysdb_subdom.name sds1 @ unhandled_names F handled"
      "None \<notin> set (unhandled_names F handled)"
      by simp_all
    with inv names_split [OF inv(2)] show ?thesis
      by auto
  qed
  with assms(1) sub show ?thesis
    using distinct_sub_names by blast
qed

lemma refresh_two_names_example:
  "ipa_subdomains_refresh 1000 []
     (subdomains_ctx0 [] [] []
        [cached_subdom ''b'' ''B'' ''S-2'', cached_subdom ''c'' ''C'' ''S-3''])
     [raw_subdom ''a'' ''A'' ''S-1'', raw_subdom ''b'' ''B'' ''S-2''] False =
   (EOK,
    \<lparr>ipa_subdomains_ctx.search_bases = [], master_search_bases = [],
      ranges_search_bases = [], last_refreshed = 1000,
      subdoms = [cached_subdom ''b'' ''B'' ''S-2'', cached_subdom ''a'' ''A'' ''S-1'']\<rparr>,
    True, [])"
  by code_simp

text \<open>
  Witness for C3: the cache holds \<open>b\<close> and \<open>c\<close>, the fetched batch \<open>a\<close> and \<open>b\<close>.
\<close>

theorem refresh_names_distinct_witness:
  "distinct (fetched_names [raw_subdom ''a'' ''A'' ''S-1'', raw_subdom ''b'' ''B'' ''S-2''])
   \<and> distinct (map sysdb_subdom.name
        (subdoms (fst (snd (ipa_subdomains_refresh 1000 []
           (subdomains_ctx0 [] [] []
              [cached_subdom ''b'' ''B'' ''S-2'', cached_subdom ''c'' ''C'' ''S-3''])
           [raw_subdom ''a'' ''A'' ''S-1'', raw_subdom ''b'' ''B'' ''S-2''] False)))))"
proof -
  have d: "distinct (fetched_names
             [raw_subdom ''a'' ''A'' ''S-1'', raw_subdom ''b'' ''B'' ''S-2''])"
    by (simp add: raw_subdom_def sysdb_attrs_get_string_def)
  from refresh_names_distinct [OF d refresh_two_names_example] d show ?thesis
    by (simp only: refresh_two_names_example fst_conv snd_conv simp_thms)
qed

text \<open>
  C3 as stated fails: with an empty cache and a fetched batch that holds the name \<open>a\<close>
  twice, the refresh succeeds and the cache holds two entries named \<open>a\<close>.
\<close>

theorem refresh_duplicate_names_counterexample:
  "fst (ipa_subdomains_refresh 1000 [] (subdomains_ctx0 [] [] [] [])
          [raw_subdom ''a'' ''A'' ''S-1'', raw_subdom ''a'' ''A'' ''S-1''] False) = EOK
   \<and> map sysdb_subdom.name
       (subdoms (fst (snd (ipa_subdomains_refresh 1000 [] (subdomains_ctx0 [] [] [] [])
          [raw_subdom ''a'' ''A'' ''S-1'', raw_subdom ''a'' ''A'' ''S-1''] False)))) =
     [Some ''a'', Some ''a'']"
  by code_simp

end
